theory Spec2Isabelle
  imports Main "HOL-Library.AList" "HOL-Library.Multiset"
begin

section \<open>Data model (gameState.ts)\<close>

text \<open>
  Identifiers (socket ids, session ids, room codes) are JavaScript strings. A JavaScript
  \<open>Map\<close> keeps its keys in insertion order; it is modelled as an association list whose
  \<open>set\<close> is \<open>AList.update\<close> (overwrite in place, or append), whose \<open>delete\<close> is
  \<open>AList.delete\<close> and whose \<open>get\<close> is \<open>map_of\<close>. Timestamps are milliseconds. The field \<open>id\<close>
  of a player is written \<open>id_p\<close>.
\<close>

datatype role = Mafia | Doctor | Detective | Citizen

datatype phase = Lobby | Night | Day | Vote | Ended

datatype cutsceneVariant = Back_alley | Rooftop | Car_ambush | Neon_club

datatype nightOutcome = Killed | Saved | No_kill

record player =
  id_p :: string
  sessionId :: string
  name :: string
  avatar :: string
  role :: role
  alive :: bool
  connected :: bool
  disconnectedAt :: "nat option"
  chatCount :: nat
  chatWindowStart :: nat

record room =
  code :: string
  hostId :: string
  players :: "(string \<times> player) list"
  phase :: phase
  round :: nat
  mafiaVotes :: "(string \<times> string) list"
  doctorSave :: "string option"
  detectiveTarget :: "string option"
  votes :: "(string \<times> string) list"
  timer :: "nat option"
  lastActivity :: nat
  nightActionsSubmitted :: "string set"
  started :: bool
  gameStartedAt :: "nat option"

definition MIN_PLAYERS :: nat where "MIN_PLAYERS = 4"
definition MAX_PLAYERS :: nat where "MAX_PLAYERS = 12"
definition NIGHT_DURATION_MS :: nat where "NIGHT_DURATION_MS = 60000"
definition DAY_DISCUSS_MS :: nat where "DAY_DISCUSS_MS = 90000"
definition VOTE_DURATION_MS :: nat where "VOTE_DURATION_MS = 30000"

text \<open>JavaScript truthiness of a \<open>string | null\<close> value: \<open>null\<close> and the empty string are falsy.\<close>

definition truthy :: "string option \<Rightarrow> bool" where
  "truthy v = (case v of None \<Rightarrow> False | Some s \<Rightarrow> s \<noteq> [])"


section \<open>Game logic (gameLogic.ts)\<close>

subsection \<open>Role assignment\<close>

text \<open>
  \<open>shuffled[idx]\<close> reads past the end of the array as \<open>undefined\<close>; the role map is
  therefore keyed by \<open>string option\<close>, \<open>None\<close> standing for \<open>undefined\<close>.
\<close>

definition nth_opt :: "'a list \<Rightarrow> nat \<Rightarrow> 'a option" where
  "nth_opt xs i = (if i < length xs then Some (xs ! i) else None)"

text \<open>
  \<open>Math.max(1, Math.floor(n * 0.33))\<close>. The double nearest to 0.33 exceeds 33/100 by less
  than \<open>2e-17\<close>, so for every array length the rounded product has the same floor as the
  rational \<open>33 n / 100\<close>; the count is written with integer division.
\<close>

definition mafiaCount :: "nat \<Rightarrow> nat" where
  "mafiaCount n = max 1 ((33 * n) div 100)"

type_synonym roleMap = "(string option \<times> role) list"

text \<open>One \<open>roleMap.set(shuffled[idx++], r)\<close> on the pair \<open>(idx, roleMap)\<close>.\<close>

definition set_next :: "string list \<Rightarrow> role \<Rightarrow> nat \<times> roleMap \<Rightarrow> nat \<times> roleMap" where
  "set_next shuffled r st = (Suc (fst st), AList.update (nth_opt shuffled (fst st)) r (snd st))"

function citizens_loop :: "string list \<Rightarrow> nat \<Rightarrow> nat \<times> roleMap \<Rightarrow> nat \<times> roleMap" where
  "citizens_loop shuffled n st =
     (if fst st < n then citizens_loop shuffled n (set_next shuffled Citizen st) else st)"
  by pat_completeness auto
termination
  by (relation "measure (\<lambda>(shuffled, n, st). n - fst st)") (auto simp: set_next_def)

declare citizens_loop.simps [simp del]

text \<open>
  \<open>assignRoles\<close>. The array \<open>shuffled\<close> is what
  \<open>[...playerIds].sort(() => Math.random() - 0.5)\<close> produced: some rearrangement of
  \<open>playerIds\<close>, passed in as a parameter.
\<close>

definition assignRoles :: "string list \<Rightarrow> string list \<Rightarrow> roleMap" where
  "assignRoles playerIds shuffled =
     (let n = length playerIds;
          hasDetective = (n > 4);
          hasDoctor = True;
          st0 = (0, []);
          st1 = ((set_next shuffled Mafia) ^^ (mafiaCount n)) st0;
          st2 = (if hasDoctor \<and> fst st1 < n then set_next shuffled Doctor st1 else st1);
          st3 = (if hasDetective \<and> fst st2 < n then set_next shuffled Detective st2 else st2);
          st4 = citizens_loop shuffled n st3
      in snd st4)"

subsection \<open>Night resolution\<close>

record nightResolutionResult =
  killedPlayerId :: "string option"
  saved :: bool
  outcome :: nightOutcome
  cutsceneVariant :: "cutsceneVariant option"

text \<open>
  \<open>Math.floor(Math.random() * xs.length)\<close> is some index below the length; the random draw
  is a parameter \<open>r\<close> and the index is \<open>r mod length xs\<close>.
\<close>

definition random_index :: "nat \<Rightarrow> nat \<Rightarrow> nat" where
  "random_index r len = r mod len"

definition randomCutscene :: "nat \<Rightarrow> cutsceneVariant" where
  "randomCutscene r =
     (let variants = [Back_alley, Rooftop, Car_ambush, Neon_club]
      in variants ! random_index r (length variants))"

text \<open>
  The tally object \<open>Record<string, number>\<close>, in insertion order of its keys:
  \<open>tally[targetId] = (tally[targetId] ?? 0) + 1\<close>.
\<close>

definition bump :: "(string \<times> nat) list \<Rightarrow> string \<Rightarrow> (string \<times> nat) list" where
  "bump tally targetId =
     AList.update targetId ((case map_of tally targetId of None \<Rightarrow> 0 | Some c \<Rightarrow> c) + 1) tally"

definition tally_of :: "string list \<Rightarrow> (string \<times> nat) list" where
  "tally_of targets = foldl bump [] targets"

text \<open>
  The first half of \<open>resolveNight\<close>: the target with the most mafia votes, a random one
  among those tied; \<open>null\<close> when the tally has no key.
\<close>

definition mafiaTarget :: "room \<Rightarrow> nat \<Rightarrow> string option" where
  "mafiaTarget room r =
     (let tally = tally_of (map snd (mafiaVotes room))
      in if length (map fst tally) > 0
         then (let maxVotes = Max (set (map snd tally));
                   candidates = filter (\<lambda>k. map_of tally k = Some maxVotes) (map fst tally)
               in nth_opt candidates (random_index r (length candidates)))
         else None)"

definition resolveNight :: "room \<Rightarrow> nat \<Rightarrow> nat \<Rightarrow> nightResolutionResult" where
  "resolveNight room r r' =
     (let target = mafiaTarget room r
      in if \<not> truthy target
         then \<lparr>killedPlayerId = None, saved = False, outcome = No_kill, cutsceneVariant = None\<rparr>
         else if target = doctorSave room
         then \<lparr>killedPlayerId = target, saved = True, outcome = Saved,
               cutsceneVariant = Some (randomCutscene r')\<rparr>
         else (case map_of (players room) (the target) of
                 None \<Rightarrow>
                   \<lparr>killedPlayerId = None, saved = False, outcome = No_kill, cutsceneVariant = None\<rparr>
               | Some victim \<Rightarrow>
                   if \<not> alive victim
                   then \<lparr>killedPlayerId = None, saved = False, outcome = No_kill,
                         cutsceneVariant = None\<rparr>
                   else \<lparr>killedPlayerId = target, saved = False, outcome = Killed,
                         cutsceneVariant = Some (randomCutscene r')\<rparr>))"

subsection \<open>Day vote\<close>

text \<open>
  The loop of \<open>resolveDayVote\<close> over \<open>Object.entries(tally)\<close>, on the triple
  \<open>(topCandidate, topCount, isTied)\<close>.
\<close>

definition top_step ::
  "string option \<times> nat \<times> bool \<Rightarrow> string \<times> nat \<Rightarrow> string option \<times> nat \<times> bool" where
  "top_step st e =
     (case st of (topCandidate, topCount, isTied) \<Rightarrow>
        if snd e > topCount then (Some (fst e), snd e, False)
        else if snd e = topCount then (topCandidate, topCount, True)
        else (topCandidate, topCount, isTied))"

definition resolveDayVote :: "room \<Rightarrow> string option" where
  "resolveDayVote room =
     (let tally = tally_of (map snd (votes room));
          st = foldl top_step (None, 0, False) tally
      in case st of (topCandidate, topCount, isTied) \<Rightarrow>
           if \<not> truthy topCandidate \<or> isTied \<or> topCount = 0 then None else topCandidate)"

subsection \<open>Win condition and helpers\<close>

datatype winner = MafiaWin | TownWin

definition getAlivePlayers :: "room \<Rightarrow> player list" where
  "getAlivePlayers room = filter alive (map snd (players room))"

definition getAliveMafia :: "room \<Rightarrow> player list" where
  "getAliveMafia room = filter (\<lambda>p. role p = Mafia) (getAlivePlayers room)"

definition checkWinCondition :: "room \<Rightarrow> winner option" where
  "checkWinCondition room =
     (let alive = getAlivePlayers room;
          aliveMafia = filter (\<lambda>p. role p = Mafia) alive;
          aliveTown = filter (\<lambda>p. role p \<noteq> Mafia) alive
      in if length aliveMafia = 0 then Some TownWin
         else if length aliveMafia \<ge> length aliveTown then Some MafiaWin
         else None)"

text \<open>
  \<open>createPlayer\<close>; the fresh \<open>uuidv4()\<close> session id and the clock are parameters.
\<close>

definition createPlayer :: "string \<Rightarrow> string \<Rightarrow> string \<Rightarrow> string \<Rightarrow> nat \<Rightarrow> player" where
  "createPlayer socketId nm av uuid now =
     \<lparr>id_p = socketId, sessionId = uuid, name = nm, avatar = av, role = Citizen,
      alive = True, connected = True, disconnectedAt = None, chatCount = 0,
      chatWindowStart = now\<rparr>"


section \<open>Server state (server.ts, roomManager.ts)\<close>

text \<open>
  The server is followed for one room code. \<open>rooms\<close> is what \<open>getRoom(code)\<close> returns
  (\<open>None\<close> before creation and after \<open>deleteRoom\<close>). \<open>pending\<close> is the timer queue of the
  event loop: handle, due time and callback of every \<open>setTimeout\<close> that has neither fired
  nor been cleared. \<open>outbox\<close> collects the socket.io events emitted. Read-only broadcasts
  (\<open>room_updated\<close>, \<open>vote_updated\<close>, system chat lines), the session-to-socket table
  (written, never read by the server) and the persistence calls are left out.
\<close>

datatype callback =
    CbStartNight
  | CbResolveNight
  | CbStartDay
  | CbStartVote
  | CbResolveVote
  | CbGrace string string

text \<open>
  The channel of a chat message is whatever string the client sent. Who a \<open>chat\<close> event goes
  to: the whole socket.io room, or the sockets of the listed players.
\<close>

datatype audience = To_room | To_sockets "string list"

datatype nightAction = Kill | Save | Investigate | UnknownAction

datatype emitted =
    Error string string
  | Room_created string
  | Room_joined string
  | Game_started string role
  | Phase_changed phase nat nat
  | Player_eliminated string string
  | Cutscene cutsceneVariant "string option" bool
  | Narrate nightOutcome
  | Detective_result string string bool
  | Chat string string string audience
  | Game_ended winner
  | Room_reset
  | Reconnected string role phase

record server =
  rooms :: "room option"
  pending :: "(nat \<times> nat \<times> callback) list"
  nextHandle :: nat
  socketToRoom :: "string set"
  outbox :: "emitted list"

definition emit :: "emitted \<Rightarrow> server \<Rightarrow> server" where
  "emit e s = s\<lparr>outbox := outbox s @ [e]\<rparr>"

definition upd_room :: "(room \<Rightarrow> room) \<Rightarrow> server \<Rightarrow> server" where
  "upd_room f s = s\<lparr>rooms := map_option f (rooms s)\<rparr>"

definition touchRoom :: "nat \<Rightarrow> server \<Rightarrow> server" where
  "touchRoom now s = upd_room (\<lambda>room. room\<lparr>lastActivity := now\<rparr>) s"

definition clearTimeout :: "nat \<Rightarrow> server \<Rightarrow> server" where
  "clearTimeout h s = s\<lparr>pending := filter (\<lambda>e. fst e \<noteq> h) (pending s)\<rparr>"

text \<open>\<open>if (room.timer) clearTimeout(room.timer)\<close>\<close>

definition clearRoomTimer :: "server \<Rightarrow> server" where
  "clearRoomTimer s =
     (case rooms s of
        None \<Rightarrow> s
      | Some room \<Rightarrow> (case timer room of None \<Rightarrow> s | Some h \<Rightarrow> clearTimeout h s))"

text \<open>\<open>setTimeout(cb, delay)\<close> whose handle is dropped, and \<open>room.timer = setTimeout(cb, delay)\<close>.\<close>

definition setTimeout :: "callback \<Rightarrow> nat \<Rightarrow> nat \<Rightarrow> server \<Rightarrow> server" where
  "setTimeout cb delay now s =
     s\<lparr>pending := pending s @ [(nextHandle s, now + delay, cb)], nextHandle := Suc (nextHandle s)\<rparr>"

definition setRoomTimer :: "callback \<Rightarrow> nat \<Rightarrow> nat \<Rightarrow> server \<Rightarrow> server" where
  "setRoomTimer cb delay now s =
     upd_room (\<lambda>room. room\<lparr>timer := Some (nextHandle s)\<rparr>) (setTimeout cb delay now s)"

definition deleteRoom :: "server \<Rightarrow> server" where
  "deleteRoom s = (clearRoomTimer s)\<lparr>rooms := None\<rparr>"

text \<open>\<open>p.alive = false\<close> on the player object stored under a key.\<close>

definition kill_player :: "string \<Rightarrow> room \<Rightarrow> room" where
  "kill_player k room =
     room\<lparr>players := AList.map_entry k (\<lambda>p. p\<lparr>alive := False\<rparr>) (players room)\<rparr>"

subsection \<open>Phase state machine\<close>

definition endGame :: "winner \<Rightarrow> nat \<Rightarrow> server \<Rightarrow> server" where
  "endGame w now s =
     (case rooms s of
        None \<Rightarrow> s
      | Some room \<Rightarrow>
          (let s1 = clearRoomTimer (s\<lparr>rooms := Some (room\<lparr>phase := Ended\<rparr>)\<rparr>);
               s2 = emit (Game_ended w) s1
           in touchRoom now s2))"

definition startNightPhase :: "nat \<Rightarrow> server \<Rightarrow> server" where
  "startNightPhase now s =
     (case rooms s of
        None \<Rightarrow> s
      | Some room \<Rightarrow>
          (let room1 = room\<lparr>phase := Night, round := round room + 1, mafiaVotes := [],
                            doctorSave := None, detectiveTarget := None,
                            nightActionsSubmitted := {}\<rparr>;
               s1 = touchRoom now (s\<lparr>rooms := Some room1\<rparr>);
               s2 = emit (Phase_changed Night (round room1) NIGHT_DURATION_MS) s1
           in setRoomTimer CbResolveNight NIGHT_DURATION_MS now (clearRoomTimer s2)))"

definition startDayPhase :: "nat \<Rightarrow> server \<Rightarrow> server" where
  "startDayPhase now s =
     (case rooms s of
        None \<Rightarrow> s
      | Some room \<Rightarrow>
          (let room1 = room\<lparr>phase := Day, votes := []\<rparr>;
               s1 = touchRoom now (s\<lparr>rooms := Some room1\<rparr>);
               s2 = emit (Phase_changed Day (round room1) DAY_DISCUSS_MS) s1
           in setRoomTimer CbStartVote DAY_DISCUSS_MS now (clearRoomTimer s2)))"

definition startVotePhase :: "nat \<Rightarrow> server \<Rightarrow> server" where
  "startVotePhase now s =
     (case rooms s of
        None \<Rightarrow> s
      | Some room \<Rightarrow>
          (let room1 = room\<lparr>phase := Vote\<rparr>;
               s1 = touchRoom now (s\<lparr>rooms := Some room1\<rparr>);
               s2 = emit (Phase_changed Vote (round room1) VOTE_DURATION_MS) s1
           in setRoomTimer CbResolveVote VOTE_DURATION_MS now (clearRoomTimer s2)))"

text \<open>
  \<open>resolveNightPhase\<close>; \<open>r\<close> and \<open>r'\<close> are the random draws of \<open>resolveNight\<close>. The phase
  stays \<open>night\<close> until the scheduled \<open>startDayPhase\<close> runs.
\<close>

definition resolveNightPhase :: "nat \<Rightarrow> nat \<Rightarrow> nat \<Rightarrow> server \<Rightarrow> server" where
  "resolveNightPhase r r' now s =
     (case rooms s of
        None \<Rightarrow> s
      | Some room \<Rightarrow>
          if phase room \<noteq> Night then s
          else
            (let result = resolveNight room r r';
                 s1 = (if truthy (killedPlayerId result) \<and> \<not> saved result
                       then (case map_of (players room) (the (killedPlayerId result)) of
                               None \<Rightarrow> s
                             | Some target \<Rightarrow>
                                 emit (Player_eliminated (id_p target) ''night_kill'')
                                   (upd_room (kill_player (the (killedPlayerId result))) s))
                       else s);
                 s2 = (case cutsceneVariant result of
                         None \<Rightarrow> s1
                       | Some v \<Rightarrow>
                           (let victim = (if truthy (killedPlayerId result)
                                          then map_of (players (the (rooms s1)))
                                                 (the (killedPlayerId result))
                                          else None)
                            in emit (Cutscene v (map_option id_p victim) (saved result)) s1));
                 s3 = emit (Narrate (outcome result)) s2
             in case checkWinCondition (the (rooms s3)) of
                  Some w \<Rightarrow> endGame w now s3
                | None \<Rightarrow>
                    (let cutsceneDelay = (if cutsceneVariant result \<noteq> None then 12000 else 2000)
                     in setRoomTimer CbStartDay cutsceneDelay now (clearRoomTimer s3))))"

text \<open>
  \<open>resolveVotePhase\<close>. The phase stays \<open>vote\<close>, and \<open>room.votes\<close> is kept, until the
  scheduled \<open>startNightPhase\<close> runs three seconds later.
\<close>

definition resolveVotePhase :: "nat \<Rightarrow> server \<Rightarrow> server" where
  "resolveVotePhase now s =
     (case rooms s of
        None \<Rightarrow> s
      | Some room \<Rightarrow>
          if phase room \<noteq> Vote then s
          else
            (let result = resolveDayVote room;
                 s1 = (if truthy result
                       then (case map_of (players room) (the result) of
                               None \<Rightarrow> s
                             | Some lynched \<Rightarrow>
                                 emit (Player_eliminated (id_p lynched) ''lynch'')
                                   (upd_room (kill_player (the result)) s))
                       else s)
             in case checkWinCondition (the (rooms s1)) of
                  Some w \<Rightarrow> endGame w now s1
                | None \<Rightarrow> setRoomTimer CbStartNight 3000 now (clearRoomTimer s1)))"


subsection \<open>Text helpers\<close>

text \<open>
  Strings are lists of 8-bit characters here; \<open>\s\<close> is modelled by the ASCII whitespace
  characters and \<open>toLowerCase\<close> by the ASCII letters.
\<close>

definition is_space :: "char \<Rightarrow> bool" where
  "is_space c = (c \<in> set [CHR '' '', CHR 0x09, CHR 0x0A, CHR 0x0B, CHR 0x0C, CHR 0x0D])"

definition trim :: "string \<Rightarrow> string" where
  "trim t = rev (dropWhile is_space (rev (dropWhile is_space t)))"

function collapse_ws :: "string \<Rightarrow> string" where
  "collapse_ws [] = []"
| "collapse_ws (c # cs) =
     (if is_space c then CHR '' '' # collapse_ws (dropWhile is_space cs)
      else c # collapse_ws cs)"
  by pat_completeness auto
termination
  by (relation "measure length") (auto simp: length_dropWhile_le less_Suc_eq_le)

definition toLowerCase :: "string \<Rightarrow> string" where
  "toLowerCase t =
     map (\<lambda>c. let n = (of_char c :: nat) in if 65 \<le> n \<and> n \<le> 90 then char_of (n + 32) else c) t"

definition sanitizeUsername :: "string \<Rightarrow> string option" where
  "sanitizeUsername raw =
     (let cleaned = trim (collapse_ws (filter (\<lambda>c. c \<notin> set [CHR ''<'', CHR ''>'', CHR ''&'', CHR 0x22, CHR 0x27, CHR ''/'', CHR 0x5C]) raw))
      in if length cleaned < 3 \<or> length cleaned > 16 then None else Some cleaned)"


subsection \<open>Socket event handlers\<close>

text \<open>
  Every handler takes the id of the socket the event arrived on, the payload, the clock
  reading \<open>now\<close>, and the server state. A handler that rejects emits \<open>Error\<close> to that socket.
\<close>

definition createRoom :: "string \<Rightarrow> string \<Rightarrow> nat \<Rightarrow> room" where
  "createRoom newCode hostSocketId now =
     \<lparr>code = newCode, hostId = hostSocketId, players = [], phase = Lobby, round = 0,
      mafiaVotes = [], doctorSave = None, detectiveTarget = None, votes = [], timer = None,
      lastActivity = now, nightActionsSubmitted = {}, started = False, gameStartedAt = None\<rparr>"

text \<open>
  \<open>create_room\<close>: \<open>generateRoomCode\<close> is retried until the code is unused, so the room
  followed here is created only while it does not exist.
\<close>

definition create_room ::
  "string \<Rightarrow> string \<Rightarrow> string \<Rightarrow> string \<Rightarrow> string \<Rightarrow> nat \<Rightarrow> server \<Rightarrow> server" where
  "create_room sock username av uuid newCode now s =
     (case sanitizeUsername username of
        None \<Rightarrow> emit (Error sock ''Invalid username (3-16 chars).'') s
      | Some nm \<Rightarrow>
          (case rooms s of
             Some room \<Rightarrow> s
           | None \<Rightarrow>
               (let room = createRoom newCode sock now;
                    player = createPlayer sock nm av uuid now;
                    room1 = room\<lparr>players := AList.update sock player (players room)\<rparr>
                in emit (Room_created sock)
                     (s\<lparr>rooms := Some room1, socketToRoom := insert sock (socketToRoom s)\<rparr>))))"

definition join_room :: "string \<Rightarrow> string \<Rightarrow> string \<Rightarrow> string \<Rightarrow> nat \<Rightarrow> server \<Rightarrow> server" where
  "join_room sock username av uuid now s =
     (case rooms s of
        None \<Rightarrow> emit (Error sock ''Room not found. Check the code and try again.'') s
      | Some room \<Rightarrow>
          if started room then emit (Error sock ''Game already in progress.'') s
          else if length (players room) \<ge> MAX_PLAYERS
          then emit (Error sock ''Room is full (max 12 players).'') s
          else
            (case sanitizeUsername username of
               None \<Rightarrow> emit (Error sock ''Invalid username (3-16 chars).'') s
             | Some nm \<Rightarrow>
                 if list_ex (\<lambda>p. toLowerCase (name p) = toLowerCase nm) (map snd (players room))
                 then emit (Error sock ''Username already taken in this room.'') s
                 else
                   (let player = createPlayer sock nm av uuid now;
                        room1 = room\<lparr>players := AList.update sock player (players room)\<rparr>;
                        s1 = s\<lparr>rooms := Some room1, socketToRoom := insert sock (socketToRoom s)\<rparr>
                    in emit (Room_joined sock) (touchRoom now s1))))"

text \<open>\<open>for (const [id, role] of roleMap) { const p = room.players.get(id); if (p) p.role = role; }\<close>\<close>

definition apply_role :: "(string \<times> player) list \<Rightarrow> string option \<times> role \<Rightarrow> (string \<times> player) list" where
  "apply_role ps e =
     (case fst e of
        None \<Rightarrow> ps
      | Some k \<Rightarrow> AList.map_entry k (\<lambda>p. p\<lparr>role := snd e\<rparr>) ps)"

text \<open>
  \<open>start_game\<close>; \<open>shuffled\<close> is the outcome of the shuffle inside \<open>assignRoles\<close>. The handle of
  the three-second countdown is not stored in \<open>room.timer\<close>, and the phase stays \<open>lobby\<close>
  until the countdown fires. \<open>game_started\<close> is recorded here for every roster entry; the
  source skips the entries whose socket is gone.
\<close>

definition start_game :: "string \<Rightarrow> string list \<Rightarrow> nat \<Rightarrow> server \<Rightarrow> server" where
  "start_game sock shuffled now s =
     (case rooms s of
        None \<Rightarrow> emit (Error sock ''Room not found.'') s
      | Some room \<Rightarrow>
          if hostId room \<noteq> sock then emit (Error sock ''Only the host can start.'') s
          else if started room then emit (Error sock ''Game already started.'') s
          else if length (players room) < MIN_PLAYERS
          then emit (Error sock ''Need at least 4 players to start.'') s
          else
            (let playerIds = map fst (players room);
                 roleMap = assignRoles playerIds shuffled;
                 ps = foldl apply_role (players room) roleMap;
                 room1 = room\<lparr>started := True, players := ps, gameStartedAt := Some now\<rparr>;
                 s1 = foldl (\<lambda>st p. emit (Game_started (id_p p) (role p)) st)
                        (s\<lparr>rooms := Some room1\<rparr>) (map snd ps)
             in setTimeout CbStartNight 3000 now (touchRoom now s1)))"

text \<open>\<open>checkNightActionsComplete\<close>: the early end of the night.\<close>

definition checkNightActionsComplete :: "nat \<Rightarrow> nat \<Rightarrow> nat \<Rightarrow> server \<Rightarrow> server" where
  "checkNightActionsComplete r r' now s =
     (case rooms s of
        None \<Rightarrow> s
      | Some room \<Rightarrow>
          if phase room \<noteq> Night then s
          else
            (let alivePlayers = getAlivePlayers room;
                 aliveMafia = filter (\<lambda>p. role p = Mafia) alivePlayers;
                 mafiaVoters = map fst (mafiaVotes room);
                 allMafiaVoted = (length aliveMafia > 0 \<and>
                                  list_all (\<lambda>p. id_p p \<in> set mafiaVoters) aliveMafia);
                 hasDoctor = list_ex (\<lambda>p. role p = Doctor) alivePlayers;
                 doctorActed = (if hasDoctor then doctorSave room \<noteq> None else True);
                 hasDetective = list_ex (\<lambda>p. role p = Detective) alivePlayers;
                 detectiveActed = (if hasDetective then detectiveTarget room \<noteq> None else True)
             in if allMafiaVoted \<and> doctorActed \<and> detectiveActed
                then resolveNightPhase r r' now (clearRoomTimer s)
                else s))"

text \<open>
  The \<open>night_action\<close> handler up to its \<open>switch\<close>: either the error it reports, or the
  state with the action recorded.
\<close>

definition record_night_action ::
  "string \<Rightarrow> nightAction \<Rightarrow> string \<Rightarrow> server \<Rightarrow> string + server" where
  "record_night_action sock action targetId s =
     (case rooms s of
        None \<Rightarrow> Inl ''Room not found.''
      | Some room \<Rightarrow>
          if phase room \<noteq> Night then Inl ''Not night phase.''
          else
            (case map_of (players room) sock of
               None \<Rightarrow> Inl ''You are not alive.''
             | Some player \<Rightarrow>
                 if \<not> alive player then Inl ''You are not alive.''
                 else if sock \<in> nightActionsSubmitted room
                 then Inl ''You already submitted a night action.''
                 else
                   (case map_of (players room) targetId of
                      None \<Rightarrow> Inl ''Invalid target.''
                    | Some target \<Rightarrow>
                        if \<not> alive target then Inl ''Invalid target.''
                        else
                          (case action of
                             Kill \<Rightarrow>
                               if role player \<noteq> Mafia then Inl ''Only mafia can kill.''
                               else if targetId = sock then Inl ''Cannot target yourself.''
                               else if length (mafiaVotes room) = 0
                               then Inr (upd_room (\<lambda>rm. rm\<lparr>mafiaVotes :=
                                           mafiaVotes rm @ [(sock, targetId)]\<rparr>) s)
                               else Inr s
                           | Save \<Rightarrow>
                               if role player \<noteq> Doctor then Inl ''Only doctor can save.''
                               else Inr (upd_room (\<lambda>rm. rm\<lparr>doctorSave := Some targetId\<rparr>) s)
                           | Investigate \<Rightarrow>
                               if role player \<noteq> Detective
                               then Inl ''Only detective can investigate.''
                               else Inr (emit (Detective_result sock targetId (role target = Mafia))
                                           (upd_room (\<lambda>rm. rm\<lparr>detectiveTarget := Some targetId\<rparr>) s))
                           | UnknownAction \<Rightarrow> Inl ''Unknown action.''))))"

text \<open>The state once the sender is added to \<open>nightActionsSubmitted\<close> and the room touched.\<close>

definition mark_submitted :: "string \<Rightarrow> nat \<Rightarrow> server \<Rightarrow> server" where
  "mark_submitted sock now s =
     touchRoom now
       (upd_room (\<lambda>rm. rm\<lparr>nightActionsSubmitted := insert sock (nightActionsSubmitted rm)\<rparr>) s)"

definition night_action ::
  "string \<Rightarrow> nightAction \<Rightarrow> string \<Rightarrow> nat \<Rightarrow> nat \<Rightarrow> nat \<Rightarrow> server \<Rightarrow> server" where
  "night_action sock action targetId r r' now s =
     (case record_night_action sock action targetId s of
        Inl msg \<Rightarrow> emit (Error sock msg) s
      | Inr s1 \<Rightarrow> checkNightActionsComplete r r' now (mark_submitted sock now s1))"

definition day_vote :: "string \<Rightarrow> string \<Rightarrow> nat \<Rightarrow> server \<Rightarrow> server" where
  "day_vote sock targetId now s =
     (case rooms s of
        None \<Rightarrow> emit (Error sock ''Room not found.'') s
      | Some room \<Rightarrow>
          if phase room \<noteq> Vote then emit (Error sock ''Not voting phase.'') s
          else
            (case map_of (players room) sock of
               None \<Rightarrow> emit (Error sock ''You cannot vote.'') s
             | Some voter \<Rightarrow>
                 if \<not> alive voter then emit (Error sock ''You cannot vote.'') s
                 else
                   (case map_of (players room) targetId of
                      None \<Rightarrow> emit (Error sock ''Invalid vote target.'') s
                    | Some target \<Rightarrow>
                        if \<not> alive target then emit (Error sock ''Invalid vote target.'') s
                        else if targetId = sock
                        then emit (Error sock ''Cannot vote for yourself.'') s
                        else
                          (let room1 = room\<lparr>votes := AList.update sock targetId (votes room)\<rparr>;
                               s1 = touchRoom now (s\<lparr>rooms := Some room1\<rparr>)
                           in if length (votes room1) \<ge> length (getAlivePlayers room1)
                              then resolveVotePhase now (clearRoomTimer s1)
                              else s1))))"

definition skip_discussion :: "string \<Rightarrow> nat \<Rightarrow> server \<Rightarrow> server" where
  "skip_discussion sock now s =
     (case rooms s of
        None \<Rightarrow> emit (Error sock ''Room not found.'') s
      | Some room \<Rightarrow>
          if hostId room \<noteq> sock then emit (Error sock ''Only the host can skip discussion.'') s
          else if phase room \<noteq> Day
          then emit (Error sock ''Can only skip during discussion phase.'') s
          else startVotePhase now (clearRoomTimer s))"

definition play_again :: "string \<Rightarrow> nat \<Rightarrow> server \<Rightarrow> server" where
  "play_again sock now s =
     (case rooms s of
        None \<Rightarrow> emit (Error sock ''Room not found.'') s
      | Some room \<Rightarrow>
          if hostId room \<noteq> sock then emit (Error sock ''Only the host can restart.'') s
          else if phase room \<noteq> Ended then emit (Error sock ''Game is still in progress.'') s
          else
            (let room1 = room\<lparr>phase := Lobby, round := 0, started := False, mafiaVotes := [],
                              doctorSave := None, detectiveTarget := None, votes := [],
                              nightActionsSubmitted := {}, gameStartedAt := None\<rparr>;
                 s1 = upd_room (\<lambda>rm. rm\<lparr>timer := None\<rparr>) (clearRoomTimer (s\<lparr>rooms := Some room1\<rparr>));
                 reset = (\<lambda>p. p\<lparr>alive := True, role := Citizen, connected := True,
                                disconnectedAt := None, chatCount := 0, chatWindowStart := now\<rparr>);
                 s2 = upd_room (\<lambda>rm. rm\<lparr>players := map (\<lambda>(k, p). (k, reset p)) (players rm)\<rparr>) s1
             in emit Room_reset (touchRoom now s2)))"


text \<open>
  \<open>chat_message\<close>. The handler compares \<open>data.channel\<close> with \<open>'global'\<close> for the alive check and
  with \<open>'mafia'\<close> for the mafia checks and for the delivery; every other string takes the
  \<open>else\<close> branch of the delivery and goes to the whole room.
\<close>

definition chat_message :: "string \<Rightarrow> string \<Rightarrow> string \<Rightarrow> nat \<Rightarrow> server \<Rightarrow> server" where
  "chat_message sock text0 ch now s =
     (case rooms s of
        None \<Rightarrow> s
      | Some room \<Rightarrow>
          (case map_of (players room) sock of
             None \<Rightarrow> s
           | Some player \<Rightarrow>
               if \<not> alive player \<and> ch = ''global''
               then emit (Error sock ''Spectators cannot send messages.'') s
               else if ch = ''mafia'' \<and> role player \<noteq> Mafia
               then emit (Error sock ''Only mafia can use mafia chat.'') s
               else if ch = ''mafia'' \<and> length (getAliveMafia room) \<le> 1
               then emit (Error sock ''Mafia chat disabled (only 1 mafia left).'') s
               else
                 (let player1 = (if now - chatWindowStart player > 5000
                                 then player\<lparr>chatCount := 0, chatWindowStart := now\<rparr>
                                 else player);
                      player2 = player1\<lparr>chatCount := chatCount player1 + 1\<rparr>;
                      s1 = upd_room (\<lambda>rm. rm\<lparr>players := AList.map_entry sock (\<lambda>p. player2)
                                                             (players rm)\<rparr>) s
                  in if chatCount player2 > 10
                     then emit (Error sock ''Slow down! (rate limit)'') s1
                     else
                       (let txt = take 300 (trim (filter (\<lambda>c. c \<notin> set ''<>'') text0));
                            aud = (if ch = ''mafia''
                                   then To_sockets (map id_p (filter (\<lambda>p. role p = Mafia)
                                                      (map snd (players (the (rooms s1))))))
                                   else To_room)
                        in if txt = [] then s1
                           else touchRoom now (emit (Chat sock txt ch aud) s1)))))"

definition reconnect_player :: "string \<Rightarrow> string \<Rightarrow> nat \<Rightarrow> server \<Rightarrow> server" where
  "reconnect_player sock sid now s =
     (case rooms s of
        None \<Rightarrow> emit (Error sock ''Room not found.'') s
      | Some room \<Rightarrow>
          (case find (\<lambda>p. sessionId p = sid) (map snd (players room)) of
             None \<Rightarrow> emit (Error sock ''Session not found.'') s
           | Some foundPlayer \<Rightarrow>
               if (case disconnectedAt foundPlayer of
                     None \<Rightarrow> False
                   | Some t \<Rightarrow> t \<noteq> 0 \<and> now - t > 30000)
               then emit (Error sock ''Reconnect window expired.'') s
               else
                 (let oldId = id_p foundPlayer;
                      moved = foundPlayer\<lparr>id_p := sock, connected := True, disconnectedAt := None\<rparr>;
                      room1 = room\<lparr>players := AList.update sock moved
                                                  (AList.delete oldId (players room))\<rparr>;
                      room2 = (if hostId room1 = oldId then room1\<lparr>hostId := sock\<rparr> else room1);
                      s1 = s\<lparr>rooms := Some room2,
                             socketToRoom := insert sock (socketToRoom s - {oldId})\<rparr>
                  in touchRoom now (emit (Reconnected sock (role moved) (phase room2)) s1))))"

definition leave_room :: "string \<Rightarrow> server \<Rightarrow> server" where
  "leave_room sock s = s\<lparr>socketToRoom := socketToRoom s - {sock}\<rparr>"

text \<open>
  After a removal: \<open>if (room.hostId === socket.id && room.players.size > 0) room.hostId =
  room.players.keys().next().value\<close>, then the room is deleted when it is empty.
\<close>

definition promote_or_delete :: "string \<Rightarrow> server \<Rightarrow> server" where
  "promote_or_delete sock s =
     (case rooms s of
        None \<Rightarrow> s
      | Some room \<Rightarrow>
          (let room1 = (if hostId room = sock \<and> length (players room) > 0
                        then room\<lparr>hostId := fst (hd (players room))\<rparr> else room);
               s1 = s\<lparr>rooms := Some room1\<rparr>
           in if length (players room1) = 0 then deleteRoom s1 else s1))"

definition handleDisconnect :: "string \<Rightarrow> bool \<Rightarrow> nat \<Rightarrow> server \<Rightarrow> server" where
  "handleDisconnect sock permanent now s =
     (case rooms s of
        None \<Rightarrow> s
      | Some room \<Rightarrow>
          (case map_of (players room) sock of
             None \<Rightarrow> s
           | Some player \<Rightarrow>
               if permanent
               then promote_or_delete sock
                      (s\<lparr>rooms := Some (room\<lparr>players := AList.delete sock (players room)\<rparr>)\<rparr>)
               else
                 (let gracePeriodMs = (if phase room = Lobby then 15000 else 30000);
                      room1 = room\<lparr>players := AList.map_entry sock
                                 (\<lambda>p. p\<lparr>connected := False, disconnectedAt := Some now\<rparr>)
                                 (players room)\<rparr>
                  in setTimeout (CbGrace sock (sessionId player)) gracePeriodMs now
                       (s\<lparr>rooms := Some room1\<rparr>))))"

text \<open>The callback of the grace timer started by \<open>handleDisconnect\<close>.\<close>

definition graceExpired :: "string \<Rightarrow> nat \<Rightarrow> server \<Rightarrow> server" where
  "graceExpired sock now s =
     (case rooms s of
        None \<Rightarrow> s
      | Some updatedRoom \<Rightarrow>
          (case map_of (players updatedRoom) sock of
             None \<Rightarrow> s
           | Some updatedPlayer \<Rightarrow>
               if connected updatedPlayer then s
               else if phase updatedRoom = Lobby
               then promote_or_delete sock
                      (s\<lparr>rooms := Some (updatedRoom\<lparr>players :=
                                           AList.delete sock (players updatedRoom)\<rparr>)\<rparr>)
               else
                 (let s1 = upd_room (kill_player sock) s
                  in case checkWinCondition (the (rooms s1)) of
                       Some w \<Rightarrow> endGame w now s1
                     | None \<Rightarrow> s1)))"

definition disconnect :: "string \<Rightarrow> nat \<Rightarrow> server \<Rightarrow> server" where
  "disconnect sock now s =
     (if sock \<in> socketToRoom s
      then (handleDisconnect sock False now s)\<lparr>socketToRoom := socketToRoom s - {sock}\<rparr>
      else s)"

text \<open>The cleanup interval of roomManager.ts, for this room.\<close>

definition cleanup_tick :: "nat \<Rightarrow> server \<Rightarrow> server" where
  "cleanup_tick now s =
     (case rooms s of
        None \<Rightarrow> s
      | Some room \<Rightarrow> if now - lastActivity room > 10 * 60 * 1000 then deleteRoom s else s)"

subsection \<open>The event loop\<close>

definition run_callback :: "callback \<Rightarrow> nat \<Rightarrow> nat \<Rightarrow> nat \<Rightarrow> server \<Rightarrow> server" where
  "run_callback cb r r' now s =
     (case cb of
        CbStartNight \<Rightarrow> startNightPhase now s
      | CbResolveNight \<Rightarrow> resolveNightPhase r r' now s
      | CbStartDay \<Rightarrow> startDayPhase now s
      | CbStartVote \<Rightarrow> startVotePhase now s
      | CbResolveVote \<Rightarrow> resolveVotePhase now s
      | CbGrace sock sid \<Rightarrow> graceExpired sock now s)"

text \<open>A pending timer fires no earlier than its due time; it leaves the queue and its callback runs.\<close>

definition timer_fires :: "nat \<Rightarrow> nat \<Rightarrow> nat \<Rightarrow> nat \<Rightarrow> server \<Rightarrow> server" where
  "timer_fires h r r' now s =
     (case find (\<lambda>e. fst e = h) (pending s) of
        None \<Rightarrow> s
      | Some e \<Rightarrow>
          if now < fst (snd e) then s
          else run_callback (snd (snd e)) r r' now (clearTimeout h s))"

datatype event =
    Create_room string string string string string
  | Join_room string string string string
  | Start_game string "string list"
  | Night_action string nightAction string nat nat
  | Day_vote string string
  | Skip_discussion string
  | Play_again string
  | Chat_message string string string
  | Reconnect_player string string
  | Leave_room string
  | Disconnect string
  | Timer_fires nat nat nat
  | Cleanup_tick

fun step :: "nat \<Rightarrow> event \<Rightarrow> server \<Rightarrow> server" where
  "step now (Create_room sock username av uuid newCode) s = create_room sock username av uuid newCode now s"
| "step now (Join_room sock username av uuid) s = join_room sock username av uuid now s"
| "step now (Start_game sock shuffled) s = start_game sock shuffled now s"
| "step now (Night_action sock action targetId r r') s = night_action sock action targetId r r' now s"
| "step now (Day_vote sock targetId) s = day_vote sock targetId now s"
| "step now (Skip_discussion sock) s = skip_discussion sock now s"
| "step now (Play_again sock) s = play_again sock now s"
| "step now (Chat_message sock text0 ch) s = chat_message sock text0 ch now s"
| "step now (Reconnect_player sock sid) s = reconnect_player sock sid now s"
| "step now (Leave_room sock) s = leave_room sock s"
| "step now (Disconnect sock) s = disconnect sock now s"
| "step now (Timer_fires h r r') s = timer_fires h r r' now s"
| "step now Cleanup_tick s = cleanup_tick now s"

text \<open>A run of the server: timestamped events applied in order.\<close>

fun run :: "(nat \<times> event) list \<Rightarrow> server \<Rightarrow> server" where
  "run [] s = s"
| "run (e # es) s = run es (step (fst e) (snd e) s)"

definition server0 :: server where
  "server0 = \<lparr>rooms = None, pending = [], nextHandle = 0, socketToRoom = {}, outbox = []\<rparr>"


section \<open>Specification-side definitions and fixtures\<close>

text \<open>The roles in the order \<open>assignRoles\<close> hands them out along the shuffled array.\<close>

definition role_list :: "nat \<Rightarrow> role list" where
  "role_list n = replicate (max 1 (33 * n div 100)) Mafia @ [Doctor] @
     (if n > 4 then [Detective] else []) @
     replicate (n - max 1 (33 * n div 100) - 1 - (if n > 4 then 1 else 0)) Citizen"

text \<open>A roster entry keyed by its own socket id, and a room around a roster.\<close>

definition mk_player :: "string \<Rightarrow> role \<Rightarrow> bool \<Rightarrow> string \<times> player" where
  "mk_player k rl al =
     (k, \<lparr>id_p = k, sessionId = ''s-'' @ k, name = ''player-'' @ k, avatar = [], role = rl,
          alive = al, connected = True, disconnectedAt = None, chatCount = 0,
          chatWindowStart = 0\<rparr>)"

definition mk_room :: "(string \<times> player) list \<Rightarrow> phase \<Rightarrow> room" where
  "mk_room ps ph =
     \<lparr>code = ''ROOM42'', hostId = ''a'', players = ps, phase = ph, round = 1,
      mafiaVotes = [], doctorSave = None, detectiveTarget = None, votes = [], timer = None,
      lastActivity = 0, nightActionsSubmitted = {}, started = True, gameStartedAt = Some 0\<rparr>"

text \<open>The roster of the followed room (empty when the room does not exist).\<close>

definition roster :: "server \<Rightarrow> (string \<times> player) list" where
  "roster s = (case rooms s of None \<Rightarrow> [] | Some room \<Rightarrow> players room)"

text \<open>A server holding just one room, with an empty timer queue.\<close>

definition mk_server :: "room \<Rightarrow> server" where
  "mk_server room =
     \<lparr>rooms = Some room, pending = [], nextHandle = 0, socketToRoom = fst ` set (players room),
      outbox = []\<rparr>"

text \<open>Rooms in the vote phase: two votes against one, and a one-one tie.\<close>

definition four_players :: "(string \<times> player) list" where
  "four_players = [mk_player ''a'' Mafia True, mk_player ''b'' Doctor True,
                   mk_player ''c'' Citizen True, mk_player ''d'' Citizen True]"





text \<open>Runs from the empty server. Four players gather in the lobby:\<close>

definition gather4 :: "(nat \<times> event) list" where
  "gather4 =
     [(0, Create_room ''a'' ''Ann'' [] ''s-a'' ''ROOM42''),
      (1, Join_room ''b'' ''Bob'' [] ''s-b''),
      (2, Join_room ''c'' ''Cat'' [] ''s-c''),
      (3, Join_room ''d'' ''Dan'' [] ''s-d'')]"



text \<open>A night with two living mafia members, as dealt to seven players.\<close>

definition two_mafia_room :: room where
  "two_mafia_room =
     mk_room [mk_player ''a'' Mafia True, mk_player ''b'' Mafia True, mk_player ''c'' Doctor True,
              mk_player ''d'' Detective True, mk_player ''e'' Citizen True,
              mk_player ''f'' Citizen True, mk_player ''g'' Citizen True] Night"



text \<open>
  A run in which a player drops out of the lobby one second before the game starts: the
  night begins (countdown timer, handle 1), the lobby grace timer (handle 0, due fifteen
  seconds after the disconnect) expires during the night, and the player asks to reconnect
  twenty seconds after the disconnect.
\<close>

definition run_late_reconnect :: "(nat \<times> event) list" where
  "run_late_reconnect =
     gather4 @
     [(1000, Disconnect ''b''),
      (2000, Start_game ''a'' [''a'', ''b'', ''c'', ''d'']),
      (5000, Timer_fires 1 0 0),
      (16000, Timer_fires 0 0 0),
      (21000, Reconnect_player ''b2'' ''s-b'')]"

text \<open>
  A whole game, won by the mafia after one night and one vote; then \<open>b\<close> loses its
  connection on the end screen (grace timer, handle 5, thirty seconds), the host sends
  \<open>play_again\<close>, the grace timer expires, and \<open>b\<close> asks to reconnect ninety seconds after
  the disconnect.
\<close>

definition run_reconnect_after_reset :: "(nat \<times> event) list" where
  "run_reconnect_after_reset =
     gather4 @
     [(1000, Start_game ''a'' [''a'', ''b'', ''c'', ''d'']),
      (4000, Timer_fires 0 0 0),
      (5000, Night_action ''a'' Kill ''c'' 0 0),
      (6000, Night_action ''b'' Save ''b'' 0 0),
      (18000, Timer_fires 2 0 0),
      (20000, Skip_discussion ''a''),
      (21000, Day_vote ''a'' ''d''),
      (22000, Day_vote ''b'' ''d''),
      (23000, Day_vote ''d'' ''a''),
      (30000, Disconnect ''b''),
      (31000, Play_again ''a''),
      (60000, Timer_fires 5 0 0),
      (120000, Reconnect_player ''b2'' ''s-b'')]"

text \<open>
  A run in which a dead player chats: \<open>c\<close> is killed in the first night, then sends a
  message on the channel \<open>global\<close> and the same message on a channel named \<open>all\<close>.
\<close>

definition run_dead_chat :: "(nat \<times> event) list" where
  "run_dead_chat =
     gather4 @
     [(1000, Start_game ''a'' [''a'', ''b'', ''c'', ''d'']),
      (4000, Timer_fires 0 0 0),
      (5000, Night_action ''a'' Kill ''c'' 0 0),
      (6000, Night_action ''b'' Save ''b'' 0 0),
      (7000, Chat_message ''c'' ''boo'' ''global''),
      (8000, Chat_message ''c'' ''boo'' ''all'')]"

text \<open>
  A run into a vote phase that is resolved twice: five players, a night without actions,
  the discussion skipped, five votes (three for \<open>d\<close>, two for \<open>e\<close>), and half a second
  after the fifth vote \<open>a\<close> changes its vote from \<open>d\<close> to \<open>e\<close>.
\<close>

definition run_double_lynch :: "(nat \<times> event) list" where
  "run_double_lynch =
     gather4 @
     [(4, Join_room ''e'' ''Eve'' [] ''s-e''),
      (1000, Start_game ''a'' [''a'', ''b'', ''c'', ''d'', ''e'']),
      (4000, Timer_fires 0 0 0),
      (64000, Timer_fires 1 0 0),
      (66000, Timer_fires 2 0 0),
      (70000, Skip_discussion ''a''),
      (70001, Day_vote ''a'' ''d''),
      (70002, Day_vote ''b'' ''d''),
      (70003, Day_vote ''c'' ''e''),
      (70004, Day_vote ''d'' ''e''),
      (70005, Day_vote ''e'' ''d''),
      (70500, Day_vote ''a'' ''e'')]"


text \<open>
  Who sits in the room: for every roster entry its key, the socket id stored in the player
  record and the stable session id. The key and the stored id agree in every reachable
  state (\<open>keys_in_sync\<close>).
\<close>

definition seats :: "server \<Rightarrow> (string \<times> string \<times> string) list" where
  "seats s = map (\<lambda>e. (fst e, id_p (snd e), sessionId (snd e))) (roster s)"

definition keys_in_sync :: "server \<Rightarrow> bool" where
  "keys_in_sync s = (\<forall>e \<in> set (seats s). fst (snd e) = fst e)"

definition session_ids :: "server \<Rightarrow> string set" where
  "session_ids s = (\<lambda>e. snd (snd e)) ` set (seats s)"

text \<open>The events that can bring a player into a room, and what every other event guarantees.\<close>

fun enters :: "event \<Rightarrow> bool" where
  "enters (Create_room sock username av uuid newCode) = True"
| "enters (Join_room sock username av uuid) = True"
| "enters e = False"

definition shrinks :: "server \<Rightarrow> server \<Rightarrow> bool" where
  "shrinks s s' = (keys_in_sync s \<longrightarrow>
     keys_in_sync s' \<and> length (roster s') \<le> length (roster s) \<and> session_ids s' \<subseteq> session_ids s)"

text \<open>Four players gather and the host starts the game.\<close>

definition run_started :: "(nat \<times> event) list" where
  "run_started = gather4 @ [(4, Start_game ''a'' [''a'', ''b'', ''c'', ''d''])]"

section \<open>Verification\<close>

subsection \<open>Role assignment\<close>

lemma update_fresh: "k \<notin> fst ` set al \<Longrightarrow> AList.update k v al = al @ [(k, v)]"
  by (induction al) auto

lemma set_next_zip:
  assumes "distinct shuffled" "i < length shuffled" "length rs = i"
  shows "set_next shuffled r (i, zip (map Some (take i shuffled)) rs) =
         (Suc i, zip (map Some (take (Suc i) shuffled)) (rs @ [r]))"
proof -
  have fresh: "Some (shuffled ! i) \<notin> fst ` set (zip (map Some (take i shuffled)) rs)"
  proof
    assume "Some (shuffled ! i) \<in> fst ` set (zip (map Some (take i shuffled)) rs)"
    then have "Some (shuffled ! i) \<in> set (map Some (take i shuffled))"
      by (auto dest: set_zip_leftD)
    then have "shuffled ! i \<in> set (take i shuffled)" by auto
    then obtain j where "j < i" "shuffled ! j = shuffled ! i"
      using assms(2) by (auto simp: in_set_conv_nth)
    with assms(1,2) show False by (auto simp: nth_eq_iff_index_eq)
  qed
  have "take (Suc i) shuffled = take i shuffled @ [shuffled ! i]"
    using assms(2) by (simp add: take_Suc_conv_app_nth)
  then show ?thesis
    using assms fresh by (simp add: set_next_def nth_opt_def update_fresh)
qed

lemma funpow_set_next_zip:
  assumes "distinct shuffled" "i + k \<le> length shuffled" "length rs = i"
  shows "((set_next shuffled r) ^^ k) (i, zip (map Some (take i shuffled)) rs) =
         (i + k, zip (map Some (take (i + k) shuffled)) (rs @ replicate k r))"
  using assms
proof (induction k)
  case 0
  then show ?case by simp
next
  case (Suc k)
  then have "((set_next shuffled r) ^^ k) (i, zip (map Some (take i shuffled)) rs) =
         (i + k, zip (map Some (take (i + k) shuffled)) (rs @ replicate k r))" by simp
  moreover have "set_next shuffled r (i + k, zip (map Some (take (i + k) shuffled)) (rs @ replicate k r))
      = (Suc (i + k), zip (map Some (take (Suc (i + k)) shuffled)) ((rs @ replicate k r) @ [r]))"
    using Suc.prems by (intro set_next_zip) auto
  ultimately show ?case by (simp add: replicate_append_same)
qed

lemma citizens_loop_zip:
  assumes "distinct shuffled" "n = length shuffled" "i \<le> n" "length rs = i"
  shows "citizens_loop shuffled n (i, zip (map Some (take i shuffled)) rs) =
         (n, zip (map Some shuffled) (rs @ replicate (n - i) Citizen))"
  using assms
proof (induction "n - i" arbitrary: i rs)
  case 0
  then show ?case by (simp add: citizens_loop.simps)
next
  case (Suc d)
  then have lt: "i < length shuffled" by simp
  have "citizens_loop shuffled n (i, zip (map Some (take i shuffled)) rs) =
        citizens_loop shuffled n (Suc i, zip (map Some (take (Suc i) shuffled)) (rs @ [Citizen]))"
    using Suc.prems lt by (subst citizens_loop.simps) (simp add: set_next_zip)
  also have "\<dots> = (n, zip (map Some shuffled) ((rs @ [Citizen]) @ replicate (n - Suc i) Citizen))"
    using Suc by (intro Suc.hyps(1)) auto
  also have "(rs @ [Citizen]) @ replicate (n - Suc i) Citizen = rs @ replicate (n - i) Citizen"
    using Suc.hyps(2) by (metis Suc_diff_Suc append.assoc append_Cons append_Nil lt Suc.prems(2) replicate_Suc)
  finally show ?case .
qed

lemma assignRoles_zip:
  assumes "distinct shuffled" "length shuffled = length playerIds" "4 \<le> length playerIds"
  shows "assignRoles playerIds shuffled = zip (map Some shuffled) (role_list (length playerIds))"
proof -
  define n where "n = length playerIds"
  define mc where "mc = max 1 (33 * n div 100)"
  have mc: "mc + 2 \<le> n" "1 \<le> mc" using assms(3) by (auto simp: mc_def n_def)
  have mcn: "mafiaCount n = mc" by (simp add: mc_def mafiaCount_def)
  have len: "length shuffled = n" using assms by (simp add: n_def)
  have s1: "((set_next shuffled Mafia) ^^ mc) (0, []) =
            (mc, zip (map Some (take mc shuffled)) (replicate mc Mafia))"
    using funpow_set_next_zip[of shuffled 0 mc "[]" Mafia] assms(1) mc len by simp
  have s2: "set_next shuffled Doctor (mc, zip (map Some (take mc shuffled)) (replicate mc Mafia)) =
            (Suc mc, zip (map Some (take (Suc mc) shuffled)) (replicate mc Mafia @ [Doctor]))"
    using assms(1) mc len by (intro set_next_zip) auto
  show ?thesis
  proof (cases "n > 4")
    case True
    have lt: "mc + 2 < n" using True by (auto simp: mc_def)
    have rl: "role_list n = ((replicate mc Mafia @ [Doctor]) @ [Detective]) @
                 replicate (n - Suc (Suc mc)) Citizen"
      unfolding role_list_def mc_def[symmetric] using True by simp
    have s3: "set_next shuffled Detective (Suc mc, zip (map Some (take (Suc mc) shuffled)) (replicate mc Mafia @ [Doctor])) =
            (Suc (Suc mc), zip (map Some (take (Suc (Suc mc)) shuffled)) ((replicate mc Mafia @ [Doctor]) @ [Detective]))"
      using assms(1) mc len True by (intro set_next_zip) auto
    have s4: "citizens_loop shuffled n (Suc (Suc mc), zip (map Some (take (Suc (Suc mc)) shuffled)) ((replicate mc Mafia @ [Doctor]) @ [Detective]))
       = (n, zip (map Some shuffled) (((replicate mc Mafia @ [Doctor]) @ [Detective]) @ replicate (n - Suc (Suc mc)) Citizen))"
      using assms(1) mc len True by (intro citizens_loop_zip) auto
    have c: "mc < n" "Suc mc < n" using lt by simp_all
    show ?thesis
      unfolding assignRoles_def Let_def n_def[symmetric] mcn s1 rl
      by (simp only: fst_conv snd_conv s2 s3 s4 simp_thms if_True True c)
  next
    case False
    have rl: "role_list n = (replicate mc Mafia @ [Doctor]) @ replicate (n - Suc mc) Citizen"
      unfolding role_list_def mc_def[symmetric] using False by simp
    have s4: "citizens_loop shuffled n (Suc mc, zip (map Some (take (Suc mc) shuffled)) (replicate mc Mafia @ [Doctor]))
       = (n, zip (map Some shuffled) ((replicate mc Mafia @ [Doctor]) @ replicate (n - Suc mc) Citizen))"
      using assms(1) mc len by (intro citizens_loop_zip) auto
    have lt: "mc < n" using mc by simp
    show ?thesis
      unfolding assignRoles_def Let_def n_def[symmetric] mcn s1 rl
      by (simp only: fst_conv snd_conv s2 s4 simp_thms if_True if_False False lt)
  qed
qed

lemma length_role_list: "4 \<le> n \<Longrightarrow> length (role_list n) = n"
  by (auto simp: role_list_def)

text \<open>
  C5. For every list of at least four distinct player ids, whatever rearrangement the shuffle
  produced, \<open>assignRoles\<close> gives every player exactly one role: \<open>max(1, floor(0.33 N))\<close>
  mafia, one doctor, one detective exactly when there are more than four players, and
  citizens for all the rest.
\<close>

theorem assignRoles_counts:
  assumes "distinct playerIds" "4 \<le> length playerIds" "mset shuffled = mset playerIds"
  shows "distinct (map fst (assignRoles playerIds shuffled)) \<and>
         set (map fst (assignRoles playerIds shuffled)) = Some ` set playerIds \<and>
         length (filter (\<lambda>e. snd e = Mafia) (assignRoles playerIds shuffled)) =
           max 1 (33 * length playerIds div 100) \<and>
         length (filter (\<lambda>e. snd e = Doctor) (assignRoles playerIds shuffled)) = 1 \<and>
         length (filter (\<lambda>e. snd e = Detective) (assignRoles playerIds shuffled)) =
           (if length playerIds > 4 then 1 else 0) \<and>
         length (filter (\<lambda>e. snd e = Citizen) (assignRoles playerIds shuffled)) =
           length playerIds - max 1 (33 * length playerIds div 100) - 1 -
             (if length playerIds > 4 then 1 else 0)"
proof -
  let ?n = "length playerIds"
  have d: "distinct shuffled" using assms(1,3) by (metis mset_eq_imp_distinct_iff)
  have l: "length shuffled = ?n" using assms(3) by (metis size_mset)
  have st: "set shuffled = set playerIds" using assms(3) by (metis mset_eq_setD)
  have z: "assignRoles playerIds shuffled = zip (map Some shuffled) (role_list ?n)"
    using assignRoles_zip[OF d l assms(2)] .
  have lr: "length (role_list ?n) = length (map Some shuffled)"
    using length_role_list[OF assms(2)] l by simp
  have f: "map fst (assignRoles playerIds shuffled) = map Some shuffled"
    using lr by (simp add: z)
  have sn: "map snd (assignRoles playerIds shuffled) = role_list ?n"
    using lr by (simp add: z)
  have cnt: "\<And>x. length (filter (\<lambda>e. snd e = x) (assignRoles playerIds shuffled)) =
               length (filter (\<lambda>q. q = x) (role_list ?n))"
    by (simp add: sn[symmetric] filter_map comp_def)
  show ?thesis
    using d st assms(2) by (simp add: f cnt distinct_map role_list_def)
qed

theorem assignRoles_counts_witness:
  "distinct [''a'', ''b'', ''c'', ''d'', ''e''] \<and>
   4 \<le> length [''a'', ''b'', ''c'', ''d'', ''e''] \<and>
   mset [''c'', ''a'', ''b'', ''e'', ''d''] = mset [''a'', ''b'', ''c'', ''d'', ''e''] \<and>
   length (filter (\<lambda>e. snd e = Mafia)
     (assignRoles [''a'', ''b'', ''c'', ''d'', ''e''] [''c'', ''a'', ''b'', ''e'', ''d''])) = 1 \<and>
   length (filter (\<lambda>e. snd e = Doctor)
     (assignRoles [''a'', ''b'', ''c'', ''d'', ''e''] [''c'', ''a'', ''b'', ''e'', ''d''])) = 1 \<and>
   length (filter (\<lambda>e. snd e = Detective)
     (assignRoles [''a'', ''b'', ''c'', ''d'', ''e''] [''c'', ''a'', ''b'', ''e'', ''d''])) = 1 \<and>
   length (filter (\<lambda>e. snd e = Citizen)
     (assignRoles [''a'', ''b'', ''c'', ''d'', ''e''] [''c'', ''a'', ''b'', ''e'', ''d''])) = 2"
  using assignRoles_counts [of "[''a'', ''b'', ''c'', ''d'', ''e'']" "[''c'', ''a'', ''b'', ''e'', ''d'']"]
  by simp

subsection \<open>Win condition\<close>

text \<open>
  C4. The win check looks at the living roster only: with \<open>m\<close> living mafia and \<open>t\<close> living
  non-mafia, the town wins if \<open>m = 0\<close>, otherwise the mafia wins if \<open>m \<ge> t\<close>, otherwise there
  is no winner. Two living mafia against two living town is a mafia win; one against two
  is no winner.
\<close>

theorem checkWinCondition_counts:
  assumes "m = length (filter (\<lambda>p. alive p \<and> role p = Mafia) (map snd (players room)))"
      and "t = length (filter (\<lambda>p. alive p \<and> role p \<noteq> Mafia) (map snd (players room)))"
  shows "checkWinCondition room =
           (if m = 0 then Some TownWin else if t \<le> m then Some MafiaWin else None)"
proof -
  let ?vs = "map snd (players room)"
  have a: "filter (\<lambda>p. role p = Mafia) (filter alive ?vs) =
           filter (\<lambda>p. alive p \<and> role p = Mafia) ?vs"
    by (simp only: filter_filter)
  have b: "filter (\<lambda>p. role p \<noteq> Mafia) (filter alive ?vs) =
           filter (\<lambda>p. alive p \<and> role p \<noteq> Mafia) ?vs"
    by (simp only: filter_filter)
  show ?thesis
    unfolding checkWinCondition_def getAlivePlayers_def Let_def a b assms ..
qed

theorem checkWinCondition_counts_witness:
  "checkWinCondition (mk_room [mk_player ''a'' Mafia True, mk_player ''b'' Mafia True,
      mk_player ''c'' Doctor True, mk_player ''d'' Citizen True, mk_player ''e'' Citizen False]
      Night) = Some MafiaWin \<and>
   checkWinCondition (mk_room [mk_player ''a'' Mafia True, mk_player ''b'' Mafia False,
      mk_player ''c'' Doctor True, mk_player ''d'' Citizen True] Vote) = None \<and>
   checkWinCondition (mk_room [mk_player ''a'' Mafia False, mk_player ''c'' Doctor True] Vote)
     = Some TownWin"
  using checkWinCondition_counts [OF refl refl, of "mk_room [mk_player ''a'' Mafia True,
      mk_player ''b'' Mafia True, mk_player ''c'' Doctor True, mk_player ''d'' Citizen True,
      mk_player ''e'' Citizen False] Night"]
    checkWinCondition_counts [OF refl refl, of "mk_room [mk_player ''a'' Mafia True,
      mk_player ''b'' Mafia False, mk_player ''c'' Doctor True, mk_player ''d'' Citizen True]
      Vote"]
    checkWinCondition_counts [OF refl refl, of "mk_room [mk_player ''a'' Mafia False,
      mk_player ''c'' Doctor True] Vote"]
  by (simp add: mk_room_def mk_player_def)


subsection \<open>The vote tally\<close>









subsection \<open>The top-candidate loop\<close>




subsection \<open>What the helpers leave alone\<close>

lemma rooms_emit [simp]: "rooms (emit e s) = rooms s"
  by (simp add: emit_def)

lemma rooms_upd_room [simp]: "rooms (upd_room f s) = map_option f (rooms s)"
  by (simp add: upd_room_def)

lemma rooms_touchRoom [simp]:
  "rooms (touchRoom now s) = map_option (\<lambda>room. room\<lparr>lastActivity := now\<rparr>) (rooms s)"
  by (simp add: touchRoom_def)

lemma rooms_clearTimeout [simp]: "rooms (clearTimeout h s) = rooms s"
  by (simp add: clearTimeout_def)

lemma rooms_clearRoomTimer [simp]: "rooms (clearRoomTimer s) = rooms s"
  by (simp add: clearRoomTimer_def split: option.splits)

lemma rooms_setTimeout [simp]: "rooms (setTimeout cb d now s) = rooms s"
  by (simp add: setTimeout_def)

lemma rooms_setRoomTimer [simp]:
  "rooms (setRoomTimer cb d now s) =
     map_option (\<lambda>room. room\<lparr>timer := Some (nextHandle s)\<rparr>) (rooms s)"
  by (simp add: setRoomTimer_def)

lemma rooms_endGame [simp]:
  "rooms (endGame w now s) =
     map_option (\<lambda>room. room\<lparr>phase := Ended, lastActivity := now\<rparr>) (rooms s)"
  by (simp add: endGame_def Let_def split: option.splits)

lemma roster_emit [simp]: "roster (emit e s) = roster s"
  by (simp add: roster_def)

lemma roster_touchRoom [simp]: "roster (touchRoom now s) = roster s"
  by (simp add: roster_def split: option.splits)

lemma roster_clearRoomTimer [simp]: "roster (clearRoomTimer s) = roster s"
  by (simp add: roster_def)

lemma roster_setTimeout [simp]: "roster (setTimeout cb d now s) = roster s"
  by (simp add: roster_def)

lemma roster_setRoomTimer [simp]: "roster (setRoomTimer cb d now s) = roster s"
  by (simp add: roster_def split: option.splits)

lemma roster_endGame [simp]: "roster (endGame w now s) = roster s"
  by (simp add: roster_def split: option.splits)







subsection \<open>Night resolution\<close>










subsection \<open>Evaluation\<close>

lemmas handler_defs = create_room_def join_room_def start_game_def night_action_def
  record_night_action_def mark_submitted_def checkNightActionsComplete_def day_vote_def
  skip_discussion_def play_again_def chat_message_def reconnect_player_def leave_room_def
  promote_or_delete_def handleDisconnect_def graceExpired_def disconnect_def cleanup_tick_def
  run_callback_def timer_fires_def startNightPhase_def startDayPhase_def startVotePhase_def
  resolveNightPhase_def resolveVotePhase_def endGame_def emit_def upd_room_def touchRoom_def
  clearTimeout_def clearRoomTimer_def setTimeout_def setRoomTimer_def deleteRoom_def
  kill_player_def checkWinCondition_def getAlivePlayers_def getAliveMafia_def
  resolveNight_def mafiaTarget_def resolveDayVote_def top_step_def tally_of_def bump_def
  assignRoles_def set_next_def nth_opt_def mafiaCount_def apply_role_def truthy_def
  random_index_def randomCutscene_def citizens_loop.simps trim_def is_space_def
  MIN_PLAYERS_def MAX_PLAYERS_def NIGHT_DURATION_MS_def DAY_DISCUSS_MS_def VOTE_DURATION_MS_def

lemmas fixture_defs = mk_server_def mk_room_def mk_player_def four_players_def

lemmas eval_defs = handler_defs createRoom_def createPlayer_def sanitizeUsername_def
  toLowerCase_def Let_def roster_def server0_def gather4_def

subsection \<open>Chat gate\<close>

text \<open>
  What the gate enforces: an accepted message comes from a socket in the roster, from a
  living one if the channel is \<open>global\<close>, and from a mafia member with more than one mafia
  member alive if the channel is \<open>mafia\<close>. A sender outside the roster is ignored; one that
  fails these checks gets an error and the room is left as it was.
\<close>

lemma chat_message_checks:
  assumes "rooms s = Some room"
  shows "(outbox (chat_message sock text0 ch now s) = outbox s @ [Chat sock txt ch aud] \<longrightarrow>
            (\<exists>p. map_of (players room) sock = Some p \<and>
                 (ch = ''global'' \<longrightarrow> alive p) \<and>
                 (ch = ''mafia'' \<longrightarrow> role p = Mafia \<and> 1 < length (getAliveMafia room)))) \<and>
         (map_of (players room) sock = None \<longrightarrow> chat_message sock text0 ch now s = s) \<and>
         (\<forall>p. map_of (players room) sock = Some p \<and>
               ((ch = ''global'' \<and> \<not> alive p) \<or>
                (ch = ''mafia'' \<and> (role p \<noteq> Mafia \<or> length (getAliveMafia room) \<le> 1))) \<longrightarrow>
               rooms (chat_message sock text0 ch now s) = rooms s \<and>
               (\<exists>msg. outbox (chat_message sock text0 ch now s) = outbox s @ [Error sock msg]))"
proof (intro conjI impI allI)
  assume "map_of (players room) sock = None"
  then show "chat_message sock text0 ch now s = s"
    using assms by (simp add: chat_message_def)
next
  fix p
  assume "map_of (players room) sock = Some p \<and>
          ((ch = ''global'' \<and> \<not> alive p) \<or>
           (ch = ''mafia'' \<and> (role p \<noteq> Mafia \<or> length (getAliveMafia room) \<le> 1)))"
  then show "rooms (chat_message sock text0 ch now s) = rooms s"
    and "\<exists>msg. outbox (chat_message sock text0 ch now s) = outbox s @ [Error sock msg]"
    using assms by (auto simp: chat_message_def emit_def)
next
  assume acc: "outbox (chat_message sock text0 ch now s) = outbox s @ [Chat sock txt ch aud]"
  show "\<exists>p. map_of (players room) sock = Some p \<and>
            (ch = ''global'' \<longrightarrow> alive p) \<and>
            (ch = ''mafia'' \<longrightarrow> role p = Mafia \<and> 1 < length (getAliveMafia room))"
  proof (cases "map_of (players room) sock")
    case None
    then show ?thesis using acc assms by (simp add: chat_message_def)
  next
    case (Some p)
    show ?thesis
    proof (rule ccontr)
      assume "\<not> ?thesis"
      then have "(ch = ''global'' \<and> \<not> alive p) \<or>
                 (ch = ''mafia'' \<and> (role p \<noteq> Mafia \<or> length (getAliveMafia room) \<le> 1))"
        using Some by auto
      then have "\<exists>msg. outbox (chat_message sock text0 ch now s) = outbox s @ [Error sock msg]"
        using assms Some by (auto simp: chat_message_def emit_def)
      with acc show False by auto
    qed
  qed
qed

text \<open>
  No check looks at the alive flag when the channel is any other string: within the rate
  limit, a non-empty message of any roster member, dead or alive, goes to the whole room.
\<close>

lemma chat_message_other_channel:
  assumes "rooms s = Some room" and "map_of (players room) sock = Some p"
      and "ch \<noteq> ''global''" and "ch \<noteq> ''mafia''"
      and "5000 < now - chatWindowStart p \<or> chatCount p < 10"
      and "take 300 (trim (filter (\<lambda>c. c \<notin> set ''<>'') text0)) \<noteq> []"
  shows "outbox (chat_message sock text0 ch now s) =
           outbox s @ [Chat sock (take 300 (trim (filter (\<lambda>c. c \<notin> set ''<>'') text0))) ch To_room]"
  using assms
  by (auto simp: chat_message_def Let_def emit_def touchRoom_def upd_room_def)

text \<open>
  C9. The claim is that a message is accepted only from a connected sender who, on a
  channel other than the mafia one, is alive. In this run from the empty server \<open>c\<close> is
  killed in the first night; its message on the channel \<open>global\<close> is rejected, and the same
  message on a channel named \<open>all\<close> is sent to the whole room.
\<close>

theorem dead_sender_broadcast:
  "map (\<lambda>e. (fst e, alive (snd e))) (roster (run (take 8 run_dead_chat) server0)) =
     [(''a'', True), (''b'', True), (''c'', False), (''d'', True)] \<and>
   map_option phase (rooms (run (take 8 run_dead_chat) server0)) = Some Night \<and>
   drop (length (outbox (run (take 8 run_dead_chat) server0))) (outbox (run run_dead_chat server0)) =
     [Error ''c'' ''Spectators cannot send messages.'', Chat ''c'' ''boo'' ''all'' To_room]"
  unfolding run_dead_chat_def by (simp add: eval_defs)

subsection \<open>Night actions\<close>















subsection \<open>Double resolution of a vote phase\<close>

text \<open>
  Every phase entry cancels the room's timer before it schedules the next one: the queue
  afterwards is the old queue without the handle in \<open>room.timer\<close>, plus the new entry.
\<close>

lemma phase_entry_replaces_timer:
  assumes "rooms s = Some room"
  shows "pending (startNightPhase now s) =
           (case timer room of None \<Rightarrow> pending s
            | Some h \<Rightarrow> filter (\<lambda>e. fst e \<noteq> h) (pending s)) @
           [(nextHandle s, now + NIGHT_DURATION_MS, CbResolveNight)]"
    and "pending (startDayPhase now s) =
           (case timer room of None \<Rightarrow> pending s
            | Some h \<Rightarrow> filter (\<lambda>e. fst e \<noteq> h) (pending s)) @
           [(nextHandle s, now + DAY_DISCUSS_MS, CbStartVote)]"
    and "pending (startVotePhase now s) =
           (case timer room of None \<Rightarrow> pending s
            | Some h \<Rightarrow> filter (\<lambda>e. fst e \<noteq> h) (pending s)) @
           [(nextHandle s, now + VOTE_DURATION_MS, CbResolveVote)]"
  using assms
  by (simp_all add: startNightPhase_def startDayPhase_def startVotePhase_def Let_def
      setRoomTimer_def setTimeout_def clearRoomTimer_def clearTimeout_def touchRoom_def
      upd_room_def emit_def split: option.splits)

text \<open>
  C1. The claim is that the timers are cancelled so that a single phase is never resolved
  twice and a lynch is never applied twice. The timers are cancelled, and still the vote
  phase of one round is resolved twice in this run from the empty server: the fifth vote
  ends the vote early and lynches \<open>d\<close>; the phase stays \<open>vote\<close> and the votes are kept while
  the three-second timer to the next night is pending; a changed vote half a second later
  meets the early-end test again (five votes, four living players), cancels that timer and
  resolves the same phase a second time, lynching \<open>e\<close> as well.
\<close>

theorem vote_phase_resolved_twice:
  "map_option phase (rooms (run (take 15 run_double_lynch) server0)) = Some Vote \<and>
   pending (run (take 15 run_double_lynch) server0) = [(5, 73005, CbStartNight)] \<and>
   drop 13 (outbox (run (take 15 run_double_lynch) server0)) =
     [Phase_changed Vote 1 30000, Player_eliminated ''d'' ''lynch''] \<and>
   drop 13 (outbox (run run_double_lynch server0)) =
     [Phase_changed Vote 1 30000, Player_eliminated ''d'' ''lynch'',
      Player_eliminated ''e'' ''lynch''] \<and>
   map (\<lambda>e. (fst e, alive (snd e))) (roster (run run_double_lynch server0)) =
     [(''a'', True), (''b'', True), (''c'', True), (''d'', False), (''e'', False)] \<and>
   map_option (\<lambda>room. (phase room, round room)) (rooms (run run_double_lynch server0)) =
     Some (Vote, 1)"
  unfolding run_double_lynch_def by (simp add: eval_defs)

subsection \<open>Reconnection\<close>

text \<open>
  What the reconnect handler does with a request: without a roster record of that session
  id it is rejected; with one, it is rejected when a disconnect time is recorded and more
  than 30 s have passed since, whatever the phase; otherwise the record moves to the
  requesting socket id, marked connected, and the host id follows it.
\<close>

lemma reconnect_player_cases:
  assumes "rooms s = Some room"
  shows "(find (\<lambda>p. sessionId p = sid) (map snd (players room)) = None \<longrightarrow>
            reconnect_player sock sid now s = emit (Error sock ''Session not found.'') s) \<and>
         (\<forall>p. find (\<lambda>p. sessionId p = sid) (map snd (players room)) = Some p \<longrightarrow>
            ((\<exists>t. disconnectedAt p = Some t \<and> t \<noteq> 0 \<and> 30000 < now - t) \<longrightarrow>
               reconnect_player sock sid now s =
                 emit (Error sock ''Reconnect window expired.'') s) \<and>
            (\<not> (\<exists>t. disconnectedAt p = Some t \<and> t \<noteq> 0 \<and> 30000 < now - t) \<longrightarrow>
               rooms (reconnect_player sock sid now s) =
                 Some (room\<lparr>players :=
                               AList.update sock
                                 (p\<lparr>id_p := sock, connected := True, disconnectedAt := None\<rparr>)
                                 (AList.delete (id_p p) (players room)),
                            hostId := (if hostId room = id_p p then sock else hostId room),
                            lastActivity := now\<rparr>)))"
proof (intro conjI impI allI)
  assume "find (\<lambda>p. sessionId p = sid) (map snd (players room)) = None"
  then show "reconnect_player sock sid now s = emit (Error sock ''Session not found.'') s"
    using assms by (simp add: reconnect_player_def)
next
  fix p
  assume f: "find (\<lambda>p. sessionId p = sid) (map snd (players room)) = Some p"
  {
    assume "\<exists>t. disconnectedAt p = Some t \<and> t \<noteq> 0 \<and> 30000 < now - t"
    then show "reconnect_player sock sid now s =
                 emit (Error sock ''Reconnect window expired.'') s"
      using assms f by (auto simp: reconnect_player_def)
  }
  {
    assume "\<not> (\<exists>t. disconnectedAt p = Some t \<and> t \<noteq> 0 \<and> 30000 < now - t)"
    then have "\<not> (case disconnectedAt p of None \<Rightarrow> False | Some t \<Rightarrow> t \<noteq> 0 \<and> 30000 < now - t)"
      by (auto split: option.splits)
    then show "rooms (reconnect_player sock sid now s) =
                 Some (room\<lparr>players :=
                               AList.update sock
                                 (p\<lparr>id_p := sock, connected := True, disconnectedAt := None\<rparr>)
                                 (AList.delete (id_p p) (players room)),
                            hostId := (if hostId room = id_p p then sock else hostId room),
                            lastActivity := now\<rparr>)"
      using assms f by (simp add: reconnect_player_def Let_def)
  }
qed

text \<open>
  C8. The claim is that a reconnect within the grace window (15 s for a disconnect in the
  lobby, 30 s otherwise) restores the player record as it was, and that a reconnect after
  the window is rejected. Two runs from the empty server in which a reconnect after the
  window is accepted. In the first, \<open>b\<close> drops out of the lobby at 1000 (grace timer due at
  16000, fifteen seconds), the game starts, the grace timer expires during the night and
  marks \<open>b\<close> dead, and the reconnect request at 21000 is accepted: the record comes back
  under \<open>b2\<close>, dead. In the second, \<open>b\<close> drops out on the end screen at 30000 (grace timer
  due at 60000), \<open>play_again\<close> clears every disconnect time, and the reconnect request at
  120000, ninety seconds after the disconnect, is accepted.
\<close>

theorem reconnect_after_grace_accepted:
  "pending (run (take 5 run_late_reconnect) server0) = [(0, 16000, CbGrace ''b'' ''s-b'')] \<and>
   map (\<lambda>e. (fst e, alive (snd e), connected (snd e)))
     (roster (run (take 8 run_late_reconnect) server0)) =
     [(''a'', True, True), (''b'', False, False), (''c'', True, True), (''d'', True, True)] \<and>
   map (\<lambda>e. (fst e, alive (snd e), connected (snd e)))
     (roster (run run_late_reconnect server0)) =
     [(''a'', True, True), (''c'', True, True), (''d'', True, True), (''b2'', False, True)] \<and>
   last (outbox (run run_late_reconnect server0)) = Reconnected ''b2'' Doctor Night \<and>
   map_option phase (rooms (run (take 13 run_reconnect_after_reset) server0)) = Some Ended \<and>
   pending (run (take 14 run_reconnect_after_reset) server0) =
     [(5, 60000, CbGrace ''b'' ''s-b'')] \<and>
   map (\<lambda>e. (fst e, connected (snd e), disconnectedAt (snd e)))
     (roster (run (take 14 run_reconnect_after_reset) server0)) =
     [(''a'', True, None), (''b'', False, Some 30000), (''c'', True, None), (''d'', True, None)] \<and>
   map (\<lambda>e. (fst e, connected (snd e), disconnectedAt (snd e)))
     (roster (run run_reconnect_after_reset server0)) =
     [(''a'', True, None), (''c'', True, None), (''d'', True, None), (''b2'', True, None)] \<and>
   last (outbox (run run_reconnect_after_reset server0)) = Reconnected ''b2'' Citizen Lobby"
  unfolding run_late_reconnect_def run_reconnect_after_reset_def by (simp add: eval_defs)

subsection \<open>Roster membership\<close>

lemma seats_room: "rooms s = Some room \<Longrightarrow>
  seats s = map (\<lambda>e. (fst e, id_p (snd e), sessionId (snd e))) (players room)"
  by (simp add: seats_def roster_def)

lemma seats_None: "rooms s = None \<Longrightarrow> seats s = []"
  by (simp add: seats_def roster_def)

lemma length_seats [simp]: "length (seats s) = length (roster s)"
  by (simp add: seats_def)

lemma seats_emit [simp]: "seats (emit e s) = seats s"
  by (simp add: seats_def)

lemma seats_touchRoom [simp]: "seats (touchRoom now s) = seats s"
  by (simp add: seats_def)

lemma seats_clearRoomTimer [simp]: "seats (clearRoomTimer s) = seats s"
  by (simp add: seats_def)

lemma seats_clearTimeout [simp]: "seats (clearTimeout h s) = seats s"
  by (simp add: seats_def roster_def)

lemma seats_setTimeout [simp]: "seats (setTimeout cb d now s) = seats s"
  by (simp add: seats_def)

lemma seats_setRoomTimer [simp]: "seats (setRoomTimer cb d now s) = seats s"
  by (simp add: seats_def)

lemma seats_endGame [simp]: "seats (endGame w now s) = seats s"
  by (simp add: seats_def)

lemma seats_outbox_update [simp]: "seats (s\<lparr>outbox := x\<rparr>) = seats s"
  by (simp add: seats_def roster_def)

lemma seats_socketToRoom_update [simp]: "seats (s\<lparr>socketToRoom := x\<rparr>) = seats s"
  by (simp add: seats_def roster_def)

lemma seats_upd_room:
  assumes "\<And>rm. map (\<lambda>e. (fst e, id_p (snd e), sessionId (snd e))) (players (f rm)) =
               map (\<lambda>e. (fst e, id_p (snd e), sessionId (snd e))) (players rm)"
  shows "seats (upd_room f s) = seats s"
  using assms by (cases "rooms s") (simp_all add: seats_def roster_def)

lemma ident_map_entry:
  assumes "\<And>p. id_p (f p) = id_p p" "\<And>p. sessionId (f p) = sessionId p"
  shows "map (\<lambda>e. (fst e, id_p (snd e), sessionId (snd e))) (AList.map_entry k f ps) =
         map (\<lambda>e. (fst e, id_p (snd e), sessionId (snd e))) ps"
  using assms by (induction ps) auto

lemma seats_kill_player [simp]: "seats (upd_room (kill_player k) s) = seats s"
  by (rule seats_upd_room) (simp add: kill_player_def ident_map_entry)

lemma seats_rooms_update:
  "seats (s\<lparr>rooms := Some room\<rparr>) = map (\<lambda>e. (fst e, id_p (snd e), sessionId (snd e))) (players room)"
  by (simp add: seats_def roster_def)

lemma seats_startNightPhase [simp]: "seats (startNightPhase now s) = seats s"
  by (cases "rooms s") (simp_all add: startNightPhase_def Let_def seats_rooms_update seats_room)

lemma seats_startDayPhase [simp]: "seats (startDayPhase now s) = seats s"
  by (cases "rooms s") (simp_all add: startDayPhase_def Let_def seats_rooms_update seats_room)

lemma seats_startVotePhase [simp]: "seats (startVotePhase now s) = seats s"
  by (cases "rooms s") (simp_all add: startVotePhase_def Let_def seats_rooms_update seats_room)

lemma seats_resolveNightPhase [simp]: "seats (resolveNightPhase r r' now s) = seats s"
  by (cases "rooms s")
     (simp_all add: resolveNightPhase_def Let_def split: option.splits)

lemma seats_resolveVotePhase [simp]: "seats (resolveVotePhase now s) = seats s"
  by (cases "rooms s")
     (simp_all add: resolveVotePhase_def Let_def split: option.splits)

lemma seats_checkNightActionsComplete [simp]:
  "seats (checkNightActionsComplete r r' now s) = seats s"
  by (cases "rooms s") (simp_all add: checkNightActionsComplete_def Let_def)

lemma seats_mark_submitted [simp]: "seats (mark_submitted sock now s) = seats s"
  by (simp add: mark_submitted_def seats_upd_room)

lemma seats_record_night_action:
  "record_night_action sock action targetId s = Inr s1 \<Longrightarrow> seats s1 = seats s"
  by (auto simp: record_night_action_def seats_upd_room
      split: option.splits if_splits nightAction.splits)

lemma seats_night_action [simp]: "seats (night_action sock action targetId r r' now s) = seats s"
  by (simp add: night_action_def seats_record_night_action split: sum.splits)

lemma seats_day_vote [simp]: "seats (day_vote sock targetId now s) = seats s"
  by (cases "rooms s")
     (simp_all add: day_vote_def Let_def seats_rooms_update seats_room split: option.splits)

lemma seats_skip_discussion [simp]: "seats (skip_discussion sock now s) = seats s"
  by (cases "rooms s") (simp_all add: skip_discussion_def)

lemma seats_play_again [simp]: "seats (play_again sock now s) = seats s"
  by (cases "rooms s")
     (simp_all add: play_again_def Let_def seats_def roster_def comp_def split_def)

lemma ident_map_entry_const:
  fixes ps :: "(string \<times> player) list"
  assumes "map_of ps k = Some v" "id_p v' = id_p v" "sessionId v' = sessionId v"
  shows "map (\<lambda>e. (fst e, id_p (snd e), sessionId (snd e))) (AList.map_entry k (\<lambda>p. v') ps) =
         map (\<lambda>e. (fst e, id_p (snd e), sessionId (snd e))) ps"
  using assms by (induction ps) (auto split: if_splits)

lemma seats_chat_message [simp]: "seats (chat_message sock text0 ch now s) = seats s"
proof (cases "rooms s")
  case None
  then show ?thesis by (simp add: chat_message_def)
next
  case (Some room)
  show ?thesis
  proof (cases "map_of (players room) sock")
    case None
    then show ?thesis using Some by (simp add: chat_message_def)
  next
    case (Some player)
    show ?thesis using \<open>rooms s = Some room\<close> Some
      by (simp add: chat_message_def Let_def seats_def roster_def ident_map_entry_const[OF Some])
  qed
qed


lemma shrinks_same: "seats s' = seats s \<Longrightarrow> shrinks s s'"
  by (simp add: shrinks_def keys_in_sync_def session_ids_def flip: length_seats)

lemma shrinks_subset:
  "set (seats s') \<subseteq> set (seats s) \<Longrightarrow> length (seats s') \<le> length (seats s) \<Longrightarrow> shrinks s s'"
  by (auto simp: shrinks_def keys_in_sync_def session_ids_def)

lemma seats_foldl_emit:
  "seats (foldl (\<lambda>st p. emit (g p) st) s xs) = seats s"
  by (induction xs arbitrary: s) simp_all

lemma ident_apply_role:
  "map (\<lambda>e. (fst e, id_p (snd e), sessionId (snd e))) (apply_role ps e) =
   map (\<lambda>e. (fst e, id_p (snd e), sessionId (snd e))) ps"
  by (simp add: apply_role_def ident_map_entry split: option.splits)

lemma ident_foldl_apply_role:
  "map (\<lambda>e. (fst e, id_p (snd e), sessionId (snd e))) (foldl apply_role ps rm) =
   map (\<lambda>e. (fst e, id_p (snd e), sessionId (snd e))) ps"
  by (induction rm arbitrary: ps) (simp_all add: ident_apply_role)

lemma seats_start_game [simp]: "seats (start_game sock shuffled now s) = seats s"
  by (cases "rooms s")
     (simp_all add: start_game_def Let_def seats_foldl_emit seats_rooms_update seats_room
        ident_foldl_apply_role)

lemma seats_leave_room [simp]: "seats (leave_room sock s) = seats s"
  by (simp add: leave_room_def)

lemma seats_deleteRoom [simp]: "seats (deleteRoom s) = []"
  by (simp add: deleteRoom_def seats_def roster_def)

lemma seats_cleanup_tick: "seats (cleanup_tick now s) = seats s \<or> seats (cleanup_tick now s) = []"
  by (simp add: cleanup_tick_def split: option.splits)

lemma seats_promote_or_delete:
  "seats (promote_or_delete sock s) = seats s \<or> seats (promote_or_delete sock s) = []"
  by (cases "rooms s") (auto simp: promote_or_delete_def Let_def seats_rooms_update seats_room)

lemma seats_handleDisconnect_False [simp]: "seats (handleDisconnect sock False now s) = seats s"
  by (cases "rooms s")
     (simp_all add: handleDisconnect_def Let_def seats_rooms_update seats_room ident_map_entry
        split: option.splits)

lemma seats_disconnect [simp]: "seats (disconnect sock now s) = seats s"
  by (simp add: disconnect_def)

lemma ident_delete_subset:
  "set (map (\<lambda>e. (fst e, id_p (snd e), sessionId (snd e))) (AList.delete k ps)) \<subseteq>
   set (map (\<lambda>e. (fst e, id_p (snd e), sessionId (snd e))) ps)"
  by (auto simp: AList.delete_eq)

lemma shrinks_graceExpired: "shrinks s (graceExpired sock now s)"
proof (cases "rooms s")
  case None
  then show ?thesis by (simp add: graceExpired_def shrinks_same)
next
  case (Some room)
  show ?thesis
  proof (cases "map_of (players room) sock")
    case None
    then show ?thesis using Some by (simp add: graceExpired_def shrinks_same)
  next
    case (Some p)
    show ?thesis
    proof (cases "\<not> connected p \<and> phase room = Lobby")
      case True
      let ?s1 = "s\<lparr>rooms := Some (room\<lparr>players := AList.delete sock (players room)\<rparr>)\<rparr>"
      have g: "graceExpired sock now s = promote_or_delete sock ?s1"
        using True Some \<open>rooms s = Some room\<close> by (simp add: graceExpired_def)
      have sub: "set (seats ?s1) \<subseteq> set (seats s)"
        using ident_delete_subset[of sock "players room"] \<open>rooms s = Some room\<close>
        by (simp add: seats_rooms_update seats_room)
      have len: "length (seats ?s1) \<le> length (seats s)"
        using \<open>rooms s = Some room\<close>
        by (simp add: seats_rooms_update seats_room length_delete_le del: length_seats)
      from seats_promote_or_delete[of sock ?s1] show ?thesis
      proof
        assume "seats (promote_or_delete sock ?s1) = seats ?s1"
        then show ?thesis unfolding g using sub len by (intro shrinks_subset) simp_all
      next
        assume "seats (promote_or_delete sock ?s1) = []"
        then show ?thesis unfolding g by (intro shrinks_subset) simp_all
      qed
    next
      case False
      then have "seats (graceExpired sock now s) = seats s"
        using Some \<open>rooms s = Some room\<close>
        by (auto simp: graceExpired_def Let_def split: option.splits)
      then show ?thesis by (rule shrinks_same)
    qed
  qed
qed

lemma set_update_subset: "set (AList.update k v al) \<subseteq> insert (k, v) (set al)"
  by (induction al) auto

lemma set_delete_subset: "set (AList.delete k al) \<subseteq> set al"
  by (auto simp: AList.delete_eq)

lemma length_update_le: "length (AList.update k v al) \<le> Suc (length al)"
  by (induction al) auto

lemma find_in_set: "find P xs = Some x \<Longrightarrow> x \<in> set xs"
  by (induction xs) (auto split: if_splits)

lemma shrinks_reconnect_player: "shrinks s (reconnect_player sock sid now s)"
proof (cases "rooms s")
  case None
  then show ?thesis by (simp add: reconnect_player_def shrinks_same)
next
  case (Some room)
  let ?ps = "players room"
  show ?thesis
  proof (cases "find (\<lambda>p. sessionId p = sid) (map snd ?ps)")
    case None
    then show ?thesis using Some by (simp add: reconnect_player_def shrinks_same)
  next
    case (Some fp)
    show ?thesis
    proof (cases "case disconnectedAt fp of None \<Rightarrow> False | Some t \<Rightarrow> t \<noteq> 0 \<and> now - t > 30000")
      case True
      then show ?thesis using Some \<open>rooms s = Some room\<close>
        by (simp add: reconnect_player_def shrinks_same)
    next
      case False
      define moved where "moved = fp\<lparr>id_p := sock, connected := True, disconnectedAt := None\<rparr>"
      define ps' where "ps' = AList.update sock moved (AList.delete (id_p fp) ?ps)"
      have st: "seats (reconnect_player sock sid now s) =
                  map (\<lambda>e. (fst e, id_p (snd e), sessionId (snd e))) ps'"
        using False Some \<open>rooms s = Some room\<close>
        by (simp add: reconnect_player_def Let_def seats_def roster_def moved_def ps'_def)
      have fin: "fp \<in> snd ` set ?ps"
        using find_in_set[OF Some] by simp
      then obtain k where k: "(k, fp) \<in> set ?ps" by auto
      have entries: "set ps' \<subseteq> insert (sock, moved) (set ?ps)"
        unfolding ps'_def
        using set_update_subset[of sock moved "AList.delete (id_p fp) ?ps"]
          set_delete_subset[of "id_p fp" ?ps]
        by blast
      show ?thesis unfolding shrinks_def
      proof (intro impI conjI)
        assume sync: "keys_in_sync s"
        show "keys_in_sync (reconnect_player sock sid now s)"
          using sync entries \<open>rooms s = Some room\<close>
          by (fastforce simp: keys_in_sync_def st seats_room moved_def)
        show "session_ids (reconnect_player sock sid now s) \<subseteq> session_ids s"
        proof
          fix x assume "x \<in> session_ids (reconnect_player sock sid now s)"
          then obtain e where e: "e \<in> set ps'" "x = sessionId (snd e)"
            by (auto simp: session_ids_def st)
          have ss: "session_ids s = (\<lambda>e. sessionId (snd e)) ` set ?ps"
            using \<open>rooms s = Some room\<close>
            by (simp add: session_ids_def seats_room image_image)
          from e(1) entries have "e = (sock, moved) \<or> e \<in> set ?ps" by blast
          then show "x \<in> session_ids s"
          proof
            assume "e = (sock, moved)"
            then have "x = sessionId fp" using e(2) by (simp add: moved_def)
            then show ?thesis using fin unfolding ss by force
          next
            assume "e \<in> set ?ps"
            then show ?thesis using e(2) unfolding ss by blast
          qed
        qed
        have "id_p fp = k" using sync k \<open>rooms s = Some room\<close>
          by (force simp: keys_in_sync_def seats_room)
        then have "id_p fp \<in> fst ` set ?ps" using k by force
        then have "length (AList.delete (id_p fp) ?ps) < length ?ps"
          by (auto simp: AList.delete_eq intro!: length_filter_less)
        moreover have "length ps' \<le> Suc (length (AList.delete (id_p fp) ?ps))"
          by (simp add: ps'_def length_update_le)
        ultimately have "length ps' \<le> length ?ps" by linarith
        moreover have "length (roster (reconnect_player sock sid now s)) = length ps'"
          using arg_cong[OF st, of length] by simp
        moreover have "length (roster s) = length ?ps"
          using \<open>rooms s = Some room\<close> by (simp add: roster_def)
        ultimately show "length (roster (reconnect_player sock sid now s)) \<le> length (roster s)"
          by simp
      qed
    qed
  qed
qed


lemma shrinks_run_callback: "shrinks s (run_callback cb r r' now s)"
  by (cases cb) (simp_all add: run_callback_def shrinks_same shrinks_graceExpired)

lemma shrinks_trans_same: "seats s1 = seats s \<Longrightarrow> shrinks s1 s2 \<Longrightarrow> shrinks s s2"
  by (simp add: shrinks_def keys_in_sync_def session_ids_def flip: length_seats)

lemma shrinks_timer_fires: "shrinks s (timer_fires h r r' now s)"
proof (cases "find (\<lambda>e. fst e = h) (pending s)")
  case None
  then show ?thesis by (simp add: timer_fires_def shrinks_same)
next
  case (Some e)
  show ?thesis
  proof (cases "now < fst (snd e)")
    case True
    then show ?thesis using Some by (simp add: timer_fires_def shrinks_same)
  next
    case False
    then have "timer_fires h r r' now s = run_callback (snd (snd e)) r r' now (clearTimeout h s)"
      using Some by (simp add: timer_fires_def)
    then show ?thesis
      using shrinks_run_callback[of "clearTimeout h s" "snd (snd e)" r r' now]
      by (auto intro: shrinks_trans_same[of "clearTimeout h s" s])
  qed
qed

lemma shrinks_cleanup_tick: "shrinks s (cleanup_tick now s)"
  using seats_cleanup_tick[of now s]
  by (auto intro: shrinks_same shrinks_subset)

lemma join_room_rejected:
  assumes "rooms s = Some room" "MAX_PLAYERS \<le> length (players room) \<or> started room"
  shows "rooms (join_room sock username av uuid now s) = rooms s \<and>
         (\<exists>msg. outbox (join_room sock username av uuid now s) = outbox s @ [Error sock msg])"
  using assms by (auto simp: join_room_def emit_def)

lemma seats_join_room_cases:
  "seats (join_room sock username av uuid now s) = seats s \<or>
   (\<exists>room nm. rooms s = Some room \<and> \<not> started room \<and> length (players room) < MAX_PLAYERS \<and>
      seats (join_room sock username av uuid now s) =
        map (\<lambda>e. (fst e, id_p (snd e), sessionId (snd e)))
          (AList.update sock (createPlayer sock nm av uuid now) (players room)))"
  by (cases "rooms s")
     (auto simp: join_room_def Let_def seats_rooms_update seats_room split: option.splits)

lemma join_room_invariant:
  assumes "keys_in_sync s" "length (roster s) \<le> MAX_PLAYERS"
  shows "keys_in_sync (join_room sock username av uuid now s) \<and>
         length (roster (join_room sock username av uuid now s)) \<le> MAX_PLAYERS"
  using seats_join_room_cases[of sock username av uuid now s]
proof
  assume "seats (join_room sock username av uuid now s) = seats s"
  then show ?thesis using assms by (simp add: keys_in_sync_def flip: length_seats)
next
  assume "\<exists>room nm. rooms s = Some room \<and> \<not> started room \<and> length (players room) < MAX_PLAYERS \<and>
      seats (join_room sock username av uuid now s) =
        map (\<lambda>e. (fst e, id_p (snd e), sessionId (snd e)))
          (AList.update sock (createPlayer sock nm av uuid now) (players room))"
  then obtain room nm where r: "rooms s = Some room" "length (players room) < MAX_PLAYERS"
    and st: "seats (join_room sock username av uuid now s) =
        map (\<lambda>e. (fst e, id_p (snd e), sessionId (snd e)))
          (AList.update sock (createPlayer sock nm av uuid now) (players room))"
    by blast
  have sub: "set (AList.update sock (createPlayer sock nm av uuid now) (players room)) \<subseteq>
             insert (sock, createPlayer sock nm av uuid now) (set (players room))"
    by (rule set_update_subset)
  have "keys_in_sync (join_room sock username av uuid now s)"
    using assms(1) r(1) sub
    by (fastforce simp: keys_in_sync_def st seats_room createPlayer_def)
  moreover have "length (roster (join_room sock username av uuid now s)) \<le> MAX_PLAYERS"
    using arg_cong[OF st, of length] r(2)
      length_update_le[of sock "createPlayer sock nm av uuid now" "players room"]
    by simp
  ultimately show ?thesis ..
qed

lemma seats_create_room_cases:
  "seats (create_room sock username av uuid newCode now s) = seats s \<or>
   (\<exists>nm. rooms s = None \<and>
      seats (create_room sock username av uuid newCode now s) = [(sock, sock, uuid)])"
  by (cases "rooms s")
     (auto simp: create_room_def Let_def createRoom_def createPlayer_def seats_def roster_def
        split: option.splits)

lemma create_room_invariant:
  assumes "keys_in_sync s" "length (roster s) \<le> MAX_PLAYERS"
  shows "keys_in_sync (create_room sock username av uuid newCode now s) \<and>
         length (roster (create_room sock username av uuid newCode now s)) \<le> MAX_PLAYERS"
  using seats_create_room_cases[of sock username av uuid newCode now s] assms
  by (auto simp: keys_in_sync_def MAX_PLAYERS_def simp flip: length_seats)

lemma shrinks_step: "\<not> enters e \<Longrightarrow> shrinks s (step now e s)"
  by (cases e)
     (simp_all add: shrinks_same shrinks_reconnect_player shrinks_timer_fires shrinks_cleanup_tick)

lemma step_invariant:
  assumes "keys_in_sync s" "length (roster s) \<le> MAX_PLAYERS"
  shows "keys_in_sync (step now e s) \<and> length (roster (step now e s)) \<le> MAX_PLAYERS"
proof (cases "enters e")
  case True
  then show ?thesis using assms join_room_invariant create_room_invariant
    by (cases e) simp_all
next
  case False
  then have "shrinks s (step now e s)" by (rule shrinks_step)
  then show ?thesis using assms by (auto simp: shrinks_def)
qed

lemma run_invariant:
  assumes "keys_in_sync s" "length (roster s) \<le> MAX_PLAYERS"
  shows "keys_in_sync (run es s) \<and> length (roster (run es s)) \<le> MAX_PLAYERS"
  using assms
proof (induction es arbitrary: s)
  case Nil
  then show ?case by simp
next
  case (Cons e es)
  then show ?case using step_invariant[of s "fst e" "snd e"] by simp
qed

lemma server0_invariant: "keys_in_sync server0 \<and> length (roster server0) \<le> MAX_PLAYERS"
  by (simp add: server0_def keys_in_sync_def seats_def roster_def)

lemma started_step_shrinks:
  assumes "rooms s = Some room" "started room" "keys_in_sync s"
  shows "length (roster (step now e s)) \<le> length (roster s) \<and>
         session_ids (step now e s) \<subseteq> session_ids s"
proof (cases "enters e")
  case True
  have "seats (step now e s) = seats s"
  proof (cases e)
    case (Create_room sock username av uuid newCode)
    then show ?thesis
      using seats_create_room_cases[of sock username av uuid newCode now s] assms(1) by auto
  next
    case (Join_room sock username av uuid)
    then show ?thesis
      using seats_join_room_cases[of sock username av uuid now s] assms(1,2) by auto
  qed (use True in simp_all)
  then show ?thesis by (simp add: session_ids_def flip: length_seats)
next
  case False
  then have "shrinks s (step now e s)" by (rule shrinks_step)
  then show ?thesis using assms(3) by (simp add: shrinks_def)
qed

text \<open>
  C10. A join is rejected, with the room unchanged, when the roster already holds twelve
  players or the game has started. In every state the server reaches from its start, the
  roster holds at most twelve players; and while the room's started flag is set, no event
  makes the roster longer or brings in a session id that was not there before.
\<close>

theorem roster_capacity:
  "(rooms s = Some room \<and> (MAX_PLAYERS \<le> length (players room) \<or> started room) \<longrightarrow>
      rooms (join_room sock username av uuid now s) = rooms s \<and>
      (\<exists>msg. outbox (join_room sock username av uuid now s) = outbox s @ [Error sock msg])) \<and>
   length (roster (run es server0)) \<le> 12 \<and>
   (\<forall>room'. rooms (run es server0) = Some room' \<and> started room' \<longrightarrow>
      length (roster (step now' e (run es server0))) \<le> length (players room') \<and>
      session_ids (step now' e (run es server0)) \<subseteq> session_ids (run es server0))"
proof (intro conjI impI allI)
  assume a: "rooms s = Some room \<and> (MAX_PLAYERS \<le> length (players room) \<or> started room)"
  then show "rooms (join_room sock username av uuid now s) = rooms s"
    and "\<exists>msg. outbox (join_room sock username av uuid now s) = outbox s @ [Error sock msg]"
    using join_room_rejected[of s room sock username av uuid now] by blast+
next
  show "length (roster (run es server0)) \<le> 12"
    using run_invariant[of server0 es] server0_invariant by (simp add: MAX_PLAYERS_def)
next
  fix room'
  assume a: "rooms (run es server0) = Some room' \<and> started room'"
  have sync: "keys_in_sync (run es server0)"
    using run_invariant[of server0 es] server0_invariant by simp
  have "length (roster (run es server0)) = length (players room')"
    using a by (simp add: roster_def)
  then show "length (roster (step now' e (run es server0))) \<le> length (players room')"
    and "session_ids (step now' e (run es server0)) \<subseteq> session_ids (run es server0)"
    using started_step_shrinks[of "run es server0" room' now' e] a sync by auto
qed


theorem roster_capacity_witness:
  "rooms (mk_server two_mafia_room) = Some two_mafia_room \<and> started two_mafia_room \<and>
   rooms (join_room ''z'' ''Zed'' [] ''s-z'' 9 (mk_server two_mafia_room)) = Some two_mafia_room \<and>
   outbox (join_room ''z'' ''Zed'' [] ''s-z'' 9 (mk_server two_mafia_room)) =
     [Error ''z'' ''Game already in progress.''] \<and>
   map_option started (rooms (run run_started server0)) = Some True \<and>
   length (roster (run run_started server0)) = 4 \<and>
   length (roster (step 10 (Join_room ''z'' ''Zed'' [] ''s-z'') (run run_started server0))) \<le> 4 \<and>
   session_ids (step 10 (Join_room ''z'' ''Zed'' [] ''s-z'') (run run_started server0)) \<subseteq>
     {''s-a'', ''s-b'', ''s-c'', ''s-d''}"
proof -
  have ev: "map_option started (rooms (run run_started server0)) = Some True"
    "length (roster (run run_started server0)) = 4"
    "session_ids (run run_started server0) = {''s-a'', ''s-b'', ''s-c'', ''s-d''}"
    unfolding run_started_def
    by (simp_all add: eval_defs session_ids_def seats_def)
  then obtain room' where r: "rooms (run run_started server0) = Some room'" "started room'"
    by auto
  then have l: "length (players room') = 4" using ev(2) by (simp add: roster_def)
  have j: "outbox (join_room ''z'' ''Zed'' [] ''s-z'' 9 (mk_server two_mafia_room)) =
     [Error ''z'' ''Game already in progress.'']"
    by (simp add: join_room_def emit_def fixture_defs two_mafia_room_def)
  show ?thesis
    using roster_capacity [of "mk_server two_mafia_room" two_mafia_room "''z''" "''Zed''" "[]"
        "''s-z''" 9 run_started 10 "Join_room ''z'' ''Zed'' [] ''s-z''"] ev r l j
    by (simp add: fixture_defs two_mafia_room_def)
qed

end
